theory Spec2Isabelle
  imports Complex_Main "HOL-Library.Word"
begin

section \<open>JavaScript strings\<close>

text \<open>
  A JavaScript string is a sequence of UTF-16 code units: \<open>length\<close>, \<open>trim\<close> and the
  regular expressions of the validators (none of them has the \<open>u\<close> flag) all work on
  code units. String literals of the source are ASCII and are embedded with \<open>js\<close>.
\<close>

type_synonym code_unit = "16 word"
type_synonym jsstring = "code_unit list"

definition js :: "string \<Rightarrow> jsstring" where
  "js s = map (\<lambda>c. word_of_nat (of_char c)) s"

text \<open>
  ECMAScript \<open>WhiteSpace\<close> and \<open>LineTerminator\<close> code units: what
  \<open>String.prototype.trim\<close> strips and what \<open>\s\<close> matches.
\<close>

definition isWhiteSpace :: "code_unit \<Rightarrow> bool" where
  "isWhiteSpace c =
     (c \<in> set [0x0009, 0x000A, 0x000B, 0x000C, 0x000D, 0x0020, 0x00A0, 0x1680,
               0x2028, 0x2029, 0x202F, 0x205F, 0x3000, 0xFEFF]
      \<or> (0x2000 \<le> c \<and> c \<le> 0x200A))"

definition trim :: "jsstring \<Rightarrow> jsstring" where
  "trim s = rev (dropWhile isWhiteSpace (rev (dropWhile isWhiteSpace s)))"

text \<open>
  Decimal rendering of an integer, as a template literal renders an integral number (one
  below \<open>10^21\<close> in magnitude, where JavaScript does not yet switch to the exponent form).
\<close>

fun show_nat :: "nat \<Rightarrow> jsstring" where
  "show_nat n =
     (if n < 10 then [word_of_nat (48 + n)]
      else show_nat (n div 10) @ [word_of_nat (48 + n mod 10)])"

definition show_int :: "int \<Rightarrow> jsstring" where
  "show_int i = (if i < 0 then js ''-'' @ show_nat (nat (- i)) else show_nat (nat i))"

section \<open>Validation types (types.ts)\<close>

text \<open>
  \<open>ValidationFunction = (value: string) => string | null\<close>. A \<open>RegExp\<close> is taken by
  what \<open>test\<close> answers on a string (a pattern without the stateful \<open>g\<close> and \<open>y\<close>
  flags). Optional fields are \<open>option\<close>s, \<open>None\<close> for \<open>undefined\<close>; \<open>minLength\<close> and
  \<open>maxLength\<close> are integral numbers.
\<close>

type_synonym ValidationFunction = "jsstring \<Rightarrow> jsstring option"
type_synonym RegExp = "jsstring \<Rightarrow> bool"

record ValidationConfig =
  required :: "bool option"
  email :: "bool option"
  minLength :: "int option"
  maxLength :: "int option"
  pattern :: "RegExp option"
  custom :: "ValidationFunction list option"

datatype rule_set = Function ValidationFunction | Config ValidationConfig

record ValidationResult =
  isValid :: bool
  errors :: "jsstring list"

section \<open>Built-in validators (validators.ts, utils)\<close>

text \<open>
  \<open>isValidEmail\<close> tests \<open>/^[^\s@]+@[^\s@]+\.[^\s@]+$/\<close>. \<open>match_plus p k\<close> matches
  one or more code units of the class \<open>p\<close> and then the continuation \<open>k\<close> on the rest,
  trying every length as the backtracking matcher does.
\<close>

fun match_plus :: "(code_unit \<Rightarrow> bool) \<Rightarrow> (jsstring \<Rightarrow> bool) \<Rightarrow> jsstring \<Rightarrow> bool" where
  "match_plus p k [] = False"
| "match_plus p k (c # cs) = (p c \<and> (k cs \<or> match_plus p k cs))"

definition match_lit :: "code_unit \<Rightarrow> (jsstring \<Rightarrow> bool) \<Rightarrow> jsstring \<Rightarrow> bool" where
  "match_lit a k s = (case s of [] \<Rightarrow> False | c # cs \<Rightarrow> c = a \<and> k cs)"

definition not_space_at :: "code_unit \<Rightarrow> bool" where
  "not_space_at c = (\<not> isWhiteSpace c \<and> c \<noteq> 0x40)"

definition isValidEmail :: "jsstring \<Rightarrow> bool" where
  "isValidEmail email_str =
     match_plus not_space_at
       (match_lit 0x40
         (match_plus not_space_at
           (match_lit 0x2E
             (match_plus not_space_at (\<lambda>r. r = [])))))
       email_str"

definition required_message :: jsstring where
  "required_message = js ''This field is required''"

definition email_message :: jsstring where
  "email_message = js ''Please enter a valid email address''"

definition minLength_message :: "int \<Rightarrow> jsstring" where
  "minLength_message m = js ''Must be at least '' @ show_int m @ js '' characters''"

definition maxLength_message :: "int \<Rightarrow> jsstring" where
  "maxLength_message m = js ''Must be no more than '' @ show_int m @ js '' characters''"

definition default_pattern_message :: jsstring where
  "default_pattern_message = js ''Invalid format''"

definition validators_required :: ValidationFunction where
  "validators_required v = (if trim v = [] then Some required_message else None)"

definition validators_email :: ValidationFunction where
  "validators_email v = (if v \<noteq> [] \<and> \<not> isValidEmail v then Some email_message else None)"

definition validators_minLength :: "int \<Rightarrow> ValidationFunction" where
  "validators_minLength m v =
     (if v \<noteq> [] \<and> int (length v) < m then Some (minLength_message m) else None)"

definition validators_maxLength :: "int \<Rightarrow> ValidationFunction" where
  "validators_maxLength m v =
     (if v \<noteq> [] \<and> int (length v) > m then Some (maxLength_message m) else None)"

text \<open>
  \<open>pattern: (regex, message = 'Invalid format') => (value) => ...\<close>: the second
  argument is optional and defaults to the fixed message.
\<close>

definition validators_pattern :: "RegExp \<Rightarrow> jsstring option \<Rightarrow> ValidationFunction" where
  "validators_pattern regex message v =
     (if v \<noteq> [] \<and> \<not> regex v
      then Some (case message of None \<Rightarrow> default_pattern_message | Some m \<Rightarrow> m)
      else None)"

section \<open>validateValue\<close>

text \<open>
  The function threads its \<open>errors\<close> array through the rules. The model threads, beside
  it, the list of the validators it has called so far, so that which rules are evaluated,
  and in which order, can be stated. \<open>record_call t r\<close> is one
  \<open>const error = ...; if (error) errors.push(error)\<close>: the validator tagged \<open>t\<close>
  answered \<open>r\<close>, pushed when it is truthy (neither \<open>null\<close> nor the empty string).
\<close>

datatype rule = Required | Email | MinLength | MaxLength | Pattern | Custom nat | Whole

type_synonym vstate = "jsstring list \<times> rule list"

definition record_call :: "rule \<Rightarrow> jsstring option \<Rightarrow> vstate \<Rightarrow> vstate" where
  "record_call t r st =
     (case r of
        None \<Rightarrow> (fst st, snd st @ [t])
      | Some e \<Rightarrow> (if e \<noteq> [] then fst st @ [e] else fst st, snd st @ [t]))"

text \<open>\<open>config.custom.forEach(validator => ...)\<close>, the index counting the array position.\<close>

fun run_custom :: "nat \<Rightarrow> ValidationFunction list \<Rightarrow> jsstring \<Rightarrow> vstate \<Rightarrow> vstate" where
  "run_custom i [] v st = st"
| "run_custom i (f # fs) v st = run_custom (Suc i) fs v (record_call (Custom i) (f v) st)"

definition finish :: "vstate \<Rightarrow> ValidationResult \<times> rule list" where
  "finish st = (\<lparr>isValid = (length (fst st) = 0), errors = fst st\<rparr>, snd st)"

definition validateValue_run :: "jsstring \<Rightarrow> rule_set \<Rightarrow> ValidationResult \<times> rule list" where
  "validateValue_run v rs =
     (case rs of
        Function f \<Rightarrow> finish (record_call Whole (f v) ([], []))
      | Config config \<Rightarrow>
          (let st0 = ([], []);
               st1 = (if required config = Some True
                      then record_call Required (validators_required v) st0 else st0)
           in if required config = Some True \<and> validators_required v \<noteq> None \<and> trim v = []
              then (\<lparr>isValid = False, errors = fst st1\<rparr>, snd st1)
              else if trim v = []
              then (\<lparr>isValid = True, errors = []\<rparr>, snd st1)
              else
                (let st2 = (if email config = Some True
                            then record_call Email (validators_email v) st1 else st1);
                     st3 = (case minLength config of
                              Some m \<Rightarrow> record_call MinLength (validators_minLength m v) st2
                            | None \<Rightarrow> st2);
                     st4 = (case maxLength config of
                              Some m \<Rightarrow> record_call MaxLength (validators_maxLength m v) st3
                            | None \<Rightarrow> st3);
                     st5 = (case pattern config of
                              Some re \<Rightarrow> record_call Pattern (validators_pattern re None v) st4
                            | None \<Rightarrow> st4);
                     st6 = (case custom config of
                              Some fs \<Rightarrow> run_custom 0 fs v st5
                            | None \<Rightarrow> st5)
                 in finish st6)))"

definition validateValue :: "jsstring \<Rightarrow> rule_set \<Rightarrow> ValidationResult" where
  "validateValue v rs = fst (validateValue_run v rs)"

definition rules_called :: "jsstring \<Rightarrow> rule_set \<Rightarrow> rule list" where
  "rules_called v rs = snd (validateValue_run v rs)"

text \<open>
  The order and the messages the specification gives for a value whose trimmed form is not
  empty: the failures of email, minLength, maxLength, pattern and the custom functions,
  one after the other. The pattern rule of a rule set carries a regular expression and no
  message; its failure reads \<open>Invalid format\<close>.
\<close>

definition custom_failure :: "jsstring \<Rightarrow> ValidationFunction \<Rightarrow> jsstring list" where
  "custom_failure v f = (case f v of None \<Rightarrow> [] | Some e \<Rightarrow> if e \<noteq> [] then [e] else [])"

definition failures_in_order :: "ValidationConfig \<Rightarrow> jsstring \<Rightarrow> jsstring list" where
  "failures_in_order config v =
     (if email config = Some True \<and> \<not> isValidEmail v then [email_message] else [])
     @ (case minLength config of
          Some m \<Rightarrow> if int (length v) < m then [minLength_message m] else []
        | None \<Rightarrow> [])
     @ (case maxLength config of
          Some m \<Rightarrow> if int (length v) > m then [maxLength_message m] else []
        | None \<Rightarrow> [])
     @ (case pattern config of
          Some re \<Rightarrow> if \<not> re v then [default_pattern_message] else []
        | None \<Rightarrow> [])
     @ (case custom config of
          Some fs \<Rightarrow> concat (map (custom_failure v) fs)
        | None \<Rightarrow> [])"

definition rules_in_order :: "ValidationConfig \<Rightarrow> rule list" where
  "rules_in_order config =
     (if required config = Some True then [Required] else [])
     @ (if email config = Some True then [Email] else [])
     @ (case minLength config of Some m \<Rightarrow> [MinLength] | None \<Rightarrow> [])
     @ (case maxLength config of Some m \<Rightarrow> [MaxLength] | None \<Rightarrow> [])
     @ (case pattern config of Some re \<Rightarrow> [Pattern] | None \<Rightarrow> [])
     @ (case custom config of Some fs \<Rightarrow> map Custom [0..<length fs] | None \<Rightarrow> [])"

section \<open>validatePasswordStrength\<close>

datatype strength_label = Weak | Fair | Good | Strong

record PasswordStrength =
  score :: nat
  feedback :: "jsstring list"
  strength :: strength_label

text \<open>The character classes of the four regular expressions.\<close>

definition isUpper :: "code_unit \<Rightarrow> bool" where
  "isUpper c = (0x41 \<le> c \<and> c \<le> 0x5A)"

definition isLower :: "code_unit \<Rightarrow> bool" where
  "isLower c = (0x61 \<le> c \<and> c \<le> 0x7A)"

definition isDigit :: "code_unit \<Rightarrow> bool" where
  "isDigit c = (0x30 \<le> c \<and> c \<le> 0x39)"

definition isSpecial :: "code_unit \<Rightarrow> bool" where
  "isSpecial c = (\<not> (isUpper c \<or> isLower c \<or> isDigit c))"

text \<open>
  One \<open>if (test) { score += 1 } else { feedback.push(msg) }\<close> on the pair of the
  running score and the feedback array.
\<close>

definition criterion :: "bool \<Rightarrow> jsstring \<Rightarrow> nat \<times> jsstring list \<Rightarrow> nat \<times> jsstring list" where
  "criterion ok msg st = (if ok then (fst st + 1, snd st) else (fst st, snd st @ [msg]))"

definition label_of :: "nat \<Rightarrow> strength_label" where
  "label_of sc = (if sc \<le> 2 then Weak else if sc = 3 then Fair else if sc = 4 then Good else Strong)"

definition validatePasswordStrength :: "jsstring \<Rightarrow> PasswordStrength" where
  "validatePasswordStrength password =
     (let st0 = (0, []);
          st1 = criterion (length password \<ge> 8) (js ''Use at least 8 characters'') st0;
          st2 = criterion (list_ex isUpper password) (js ''Add uppercase letters'') st1;
          st3 = criterion (list_ex isLower password) (js ''Add lowercase letters'') st2;
          st4 = criterion (list_ex isDigit password) (js ''Add numbers'') st3;
          st5 = criterion (list_ex isSpecial password) (js ''Add special characters'') st4
      in \<lparr>score = fst st5, feedback = snd st5, strength = label_of (fst st5)\<rparr>)"

text \<open>What the specification says of the five criteria, in its order.\<close>

definition criteria :: "jsstring \<Rightarrow> (bool \<times> jsstring) list" where
  "criteria password =
     [(length password \<ge> 8, js ''Use at least 8 characters''),
      (list_ex isUpper password, js ''Add uppercase letters''),
      (list_ex isLower password, js ''Add lowercase letters''),
      (list_ex isDigit password, js ''Add numbers''),
      (list_ex isSpecial password, js ''Add special characters'')]"

section \<open>Themes (themes/index.ts)\<close>

datatype ThemePreset = Light | Dark

record NeumorphicTheme =
  colors_surface :: jsstring
  colors_shadow_light :: jsstring
  colors_shadow_dark :: jsstring
  colors_text :: jsstring
  colors_textSecondary :: jsstring
  colors_accent :: jsstring
  colors_error :: jsstring
  colors_success :: jsstring
  borderRadius :: jsstring
  spacing :: jsstring
  shadowIntensity :: rat
  animation_duration :: jsstring
  animation_easing :: jsstring

definition lightTheme :: NeumorphicTheme where
  "lightTheme =
     \<lparr>colors_surface = js ''#f0f0f3'', colors_shadow_light = js ''#ffffff'',
      colors_shadow_dark = js ''#d1d9e6'', colors_text = js ''#333333'',
      colors_textSecondary = js ''#666666'', colors_accent = js ''#6c5ce7'',
      colors_error = js ''#e74c3c'', colors_success = js ''#27ae60'',
      borderRadius = js ''12px'', spacing = js ''16px'', shadowIntensity = 15 / 100,
      animation_duration = js ''0.2s'',
      animation_easing = js ''cubic-bezier(0.4, 0, 0.2, 1)''\<rparr>"

definition darkTheme :: NeumorphicTheme where
  "darkTheme =
     \<lparr>colors_surface = js ''#2d3748'', colors_shadow_light = js ''#4a5568'',
      colors_shadow_dark = js ''#1a202c'', colors_text = js ''#f7fafc'',
      colors_textSecondary = js ''#cbd5e0'', colors_accent = js ''#805ad5'',
      colors_error = js ''#fc8181'', colors_success = js ''#68d391'',
      borderRadius = js ''12px'', spacing = js ''16px'', shadowIntensity = 2 / 10,
      animation_duration = js ''0.2s'',
      animation_easing = js ''cubic-bezier(0.4, 0, 0.2, 1)''\<rparr>"

fun themes :: "ThemePreset \<Rightarrow> NeumorphicTheme" where
  "themes Light = lightTheme"
| "themes Dark = darkTheme"

text \<open>\<open>NeumorphicTheme | 'light' | 'dark'\<close>: a preset name (a string) or a theme object.\<close>

datatype theme_arg = Preset ThemePreset | Object NeumorphicTheme

section \<open>Elements\<close>

text \<open>
  What the components read and write of a DOM element. A style value is a text, a number,
  or one of the box shadows that \<open>createShadowStyle\<close> computes from the theme by
  floating-point arithmetic, kept symbolic here. \<open>el_dispatched\<close> lists the events
  dispatched on the element, oldest first, and \<open>el_listeners\<close> the events of the
  handlers registered on it. A style value is taken to be one that the property accepts.
\<close>

datatype variant = Raised | Inset | Flat

datatype css_value =
    Text jsstring
  | Number rat
  | ShadowStyle variant NeumorphicTheme
  | RingedShadowStyle variant NeumorphicTheme jsstring

datatype tag = InputElement | TextAreaElement | SelectElement | ButtonElement | OtherElement

record element =
  el_tag :: tag
  el_classList :: "jsstring list"
  el_attributes :: "string \<rightharpoonup> jsstring"
  el_style :: "string \<rightharpoonup> css_value"
  el_innerHTML :: jsstring
  el_textContent :: jsstring
  el_value :: jsstring
  el_dispatched :: "string list"
  el_listeners :: "string list"

definition classList_add :: "jsstring \<Rightarrow> element \<Rightarrow> element" where
  "classList_add cn e =
     (if cn \<in> set (el_classList e) then e else e\<lparr>el_classList := el_classList e @ [cn]\<rparr>)"

definition classList_remove :: "jsstring \<Rightarrow> element \<Rightarrow> element" where
  "classList_remove cn e = e\<lparr>el_classList := removeAll cn (el_classList e)\<rparr>"

text \<open>
  What a call can raise, and how a call ends: it returns, or it raises and leaves the
  state it had reached. \<open>and_then\<close> runs the next statement when the first returned.
\<close>

datatype dom_exception = SyntaxError | InvalidCharacterError

datatype js_error = InvalidElement | WrongElementKind | TypeError | DOMException dom_exception

datatype 'a outcome = Returns 'a | Throws js_error 'a

fun state_of :: "'a outcome \<Rightarrow> 'a" where
  "state_of (Returns s) = s"
| "state_of (Throws ex s) = s"

fun and_then :: "'a outcome \<Rightarrow> ('a \<Rightarrow> 'a outcome) \<Rightarrow> 'a outcome" where
  "and_then (Returns s) f = f s"
| "and_then (Throws ex s) f = Throws ex s"

text \<open>
  \<open>classList.add\<close> and \<open>classList.remove\<close> as the DOM has them: an empty token raises
  a \<open>SyntaxError\<close>, a token with ASCII whitespace an \<open>InvalidCharacterError\<close>, and
  nothing is changed then. \<open>classList_add\<close> and \<open>classList_remove\<close> above are the
  updates for a valid token; the tokens the library builds itself (\<open>np-...\<close>) are valid.
\<close>

definition isAsciiWhitespace :: "code_unit \<Rightarrow> bool" where
  "isAsciiWhitespace c = (c \<in> set [0x0009, 0x000A, 0x000C, 0x000D, 0x0020])"

definition token_error :: "jsstring \<Rightarrow> dom_exception option" where
  "token_error t =
     (if t = [] then Some SyntaxError
      else if list_ex isAsciiWhitespace t then Some InvalidCharacterError
      else None)"

definition DOMTokenList_add :: "jsstring \<Rightarrow> element \<Rightarrow> element outcome" where
  "DOMTokenList_add t e =
     (case token_error t of
        Some ex \<Rightarrow> Throws (DOMException ex) e
      | None \<Rightarrow> Returns (classList_add t e))"

definition DOMTokenList_remove :: "jsstring \<Rightarrow> element \<Rightarrow> element outcome" where
  "DOMTokenList_remove t e =
     (case token_error t of
        Some ex \<Rightarrow> Throws (DOMException ex) e
      | None \<Rightarrow> Returns (classList_remove t e))"

definition addClassName :: "element \<Rightarrow> jsstring \<Rightarrow> element" where
  "addClassName e className = classList_add (js ''np-'' @ className) e"

definition setAttribute :: "string \<Rightarrow> jsstring \<Rightarrow> element \<Rightarrow> element" where
  "setAttribute k v e = e\<lparr>el_attributes := (el_attributes e)(k \<mapsto> v)\<rparr>"

definition removeAttribute :: "string \<Rightarrow> element \<Rightarrow> element" where
  "removeAttribute k e = e\<lparr>el_attributes := (el_attributes e)(k := None)\<rparr>"

definition setProperty :: "string \<Rightarrow> css_value \<Rightarrow> element \<Rightarrow> element" where
  "setProperty p v e = e\<lparr>el_style := (el_style e)(p \<mapsto> v)\<rparr>"

definition dispatchEvent :: "string \<Rightarrow> element \<Rightarrow> element" where
  "dispatchEvent ev e = e\<lparr>el_dispatched := el_dispatched e @ [ev]\<rparr>"

text \<open>\<open>property.replace(/[A-Z]/g, m => `-${m.toLowerCase()}`)\<close> on a property name.\<close>

definition kebab :: "string \<Rightarrow> string" where
  "kebab p =
     concat (map (\<lambda>c. if (65::nat) \<le> of_char c \<and> of_char c \<le> (90::nat)
                       then [CHR ''-'', char_of (of_char c + (32::nat))] else [c]) p)"

definition applyNeumorphicStyles ::
    "element \<Rightarrow> (string \<times> css_value) list \<Rightarrow> NeumorphicTheme \<Rightarrow> element" where
  "applyNeumorphicStyles e styles currentTheme' =
     (let baseStyles =
            [(''backgroundColor'', Text (colors_surface currentTheme')),
             (''color'', Text (colors_text currentTheme')),
             (''border'', Text (js ''none'')),
             (''borderRadius'', Text (borderRadius currentTheme')),
             (''transition'', Text (js ''all '' @ animation_duration currentTheme' @ js '' ''
                                     @ animation_easing currentTheme')),
             (''outline'', Text (js ''none''))] @ styles
      in foldl (\<lambda>el pv. setProperty (kebab (fst pv)) (snd pv) el) e baseStyles)"

definition getElementValue :: "element \<Rightarrow> jsstring" where
  "getElementValue e =
     (if el_tag e = InputElement \<or> el_tag e = TextAreaElement \<or> el_tag e = SelectElement
      then el_value e else el_textContent e)"

section \<open>BaseComponent (components/base.ts)\<close>

text \<open>
  An instance owns its element, so the element is a field of the instance. A recorded
  listener is the target it was registered on and the event; the handlers registered on
  \<open>window\<close> are kept by the world below.
\<close>

datatype target = Window | OwnElement | OtherNode string

record component =
  element :: element
  config_theme :: "theme_arg option"
  config_className :: "jsstring option"
  config_disabled :: "bool option"
  theme :: NeumorphicTheme
  listeners :: "(target \<times> string) list"
  destroyed :: bool

text \<open>JavaScript truthiness of an optional string and of an optional boolean.\<close>

definition truthy_string :: "jsstring option \<Rightarrow> bool" where
  "truthy_string s = (case s of None \<Rightarrow> False | Some x \<Rightarrow> x \<noteq> [])"

definition truthy_bool :: "bool option \<Rightarrow> bool" where
  "truthy_bool b = (b = Some True)"

text \<open>
  \<open>applyBaseStyles\<close> adds the class name of the configuration when it is truthy, with
  \<open>classList.add\<close>: on a class name that is no valid token the call raises there, before
  any style is applied.
\<close>

definition applyBaseStyles :: "'a component_scheme \<Rightarrow> 'a component_scheme outcome" where
  "applyBaseStyles c =
     (let e1 = addClassName (element c) (js ''component'');
          r2 = (case config_className c of
                  Some cn \<Rightarrow> if cn \<noteq> [] then DOMTokenList_add cn e1 else Returns e1
                | None \<Rightarrow> Returns e1)
      in case r2 of
           Throws ex e2 \<Rightarrow> Throws ex (c\<lparr>element := e2\<rparr>)
         | Returns e2 \<Rightarrow>
             Returns (c\<lparr>element :=
               applyNeumorphicStyles e2
                 [(''backgroundColor'', Text (colors_surface (theme c))),
                  (''color'', Text (colors_text (theme c))),
                  (''borderRadius'', Text (borderRadius (theme c))),
                  (''transition'', Text (js ''all '' @ animation_duration (theme c) @ js '' ''
                                          @ animation_easing (theme c))),
                  (''outline'', Text (js ''none''))]
                 (theme c)\<rparr>))"

definition onThemeChange :: "'a component_scheme \<Rightarrow> 'a component_scheme outcome" where
  "onThemeChange c = applyBaseStyles c"

definition setDisabled :: "bool \<Rightarrow> 'a component_scheme \<Rightarrow> 'a component_scheme" where
  "setDisabled d c =
     (let c1 = c\<lparr>config_disabled := Some d\<rparr>
      in if d
         then c1\<lparr>element := addClassName
                    (setAttribute ''aria-disabled'' (js ''true'')
                      (setAttribute ''disabled'' [] (element c1))) (js ''disabled'')\<rparr>
         else c1\<lparr>element := classList_remove (js ''np-disabled'')
                    (removeAttribute ''aria-disabled''
                      (removeAttribute ''disabled'' (element c1)))\<rparr>)"

definition emit :: "string \<Rightarrow> 'a component_scheme \<Rightarrow> 'a component_scheme" where
  "emit eventName c = c\<lparr>element := dispatchEvent (''np:'' @ eventName) (element c)\<rparr>"

section \<open>The page: theme store, window listeners, instances, validation manager\<close>

text \<open>
  The module-level state and the instances, each under the number that stands for its
  object identity. A handler registered on \<open>window\<close> is the event and the instance whose
  closure it is. The maps of the global \<open>ValidationManager\<close> are keyed by the element,
  that is by the instance that owns it.
\<close>

record error_node =
  err_textContent :: jsstring
  err_display :: jsstring

record 'a world =
  currentTheme :: NeumorphicTheme
  root_style :: "string \<rightharpoonup> css_value"
  head_styles :: "string list"
  window_listeners :: "(string \<times> nat) list"
  instances :: "nat \<Rightarrow> 'a component_scheme"
  next_instance :: nat
  validationState :: "nat \<rightharpoonup> ValidationResult"
  errorElements :: "nat \<rightharpoonup> error_node"

definition update_instance ::
    "nat \<Rightarrow> ('a component_scheme \<Rightarrow> 'a component_scheme) \<Rightarrow> 'a world \<Rightarrow> 'a world" where
  "update_instance i f w = w\<lparr>instances := (instances w)(i := f (instances w i))\<rparr>"

text \<open>A method of instance \<open>i\<close> that may raise, run on the page.\<close>

definition on_instance ::
    "nat \<Rightarrow> ('a component_scheme \<Rightarrow> 'a component_scheme outcome) \<Rightarrow> 'a world \<Rightarrow> 'a world outcome" where
  "on_instance i f w =
     (case f (instances w i) of
        Returns c \<Rightarrow> Returns (w\<lparr>instances := (instances w)(i := c)\<rparr>)
      | Throws ex c \<Rightarrow> Throws ex (w\<lparr>instances := (instances w)(i := c)\<rparr>))"

definition getCurrentTheme :: "'a world \<Rightarrow> NeumorphicTheme" where
  "getCurrentTheme w = currentTheme w"

definition applyCSSProperties :: "NeumorphicTheme \<Rightarrow> 'a world \<Rightarrow> 'a world" where
  "applyCSSProperties th w =
     w\<lparr>root_style := (root_style w)
        (''--np-surface'' \<mapsto> Text (colors_surface th),
         ''--np-shadow-light'' \<mapsto> Text (colors_shadow_light th),
         ''--np-shadow-dark'' \<mapsto> Text (colors_shadow_dark th),
         ''--np-text'' \<mapsto> Text (colors_text th),
         ''--np-text-secondary'' \<mapsto> Text (colors_textSecondary th),
         ''--np-accent'' \<mapsto> Text (colors_accent th),
         ''--np-error'' \<mapsto> Text (colors_error th),
         ''--np-success'' \<mapsto> Text (colors_success th),
         ''--np-radius'' \<mapsto> Text (borderRadius th),
         ''--np-spacing'' \<mapsto> Text (spacing th),
         ''--np-shadow-intensity'' \<mapsto> Number (shadowIntensity th),
         ''--np-duration'' \<mapsto> Text (animation_duration th),
         ''--np-easing'' \<mapsto> Text (animation_easing th))\<rparr>"

text \<open>
  The listener that \<open>bindEvents\<close> registers on \<open>window\<close>:
  \<open>if (typeof this._config.theme === 'string') { this._theme = getCurrentTheme();
  this.onThemeChange() }\<close>. What a listener raises is reported and does not reach the
  caller of \<open>dispatchEvent\<close>; the instance keeps the state it had reached.
\<close>

definition theme_change_listener :: "nat \<Rightarrow> 'a world \<Rightarrow> 'a world" where
  "theme_change_listener i w =
     (case config_theme (instances w i) of
        Some (Preset p) \<Rightarrow>
          update_instance i (\<lambda>c. state_of (onThemeChange (c\<lparr>theme := getCurrentTheme w\<rparr>))) w
      | Some (Object th) \<Rightarrow> w
      | None \<Rightarrow> w)"

text \<open>
  \<open>window.dispatchEvent(new CustomEvent('np:theme-change', ...))\<close>: the registered
  handlers of that event run in the order of their registration.
\<close>

definition dispatch_theme_change :: "'a world \<Rightarrow> 'a world" where
  "dispatch_theme_change w =
     foldl (\<lambda>w' l. if fst l = ''np:theme-change'' then theme_change_listener (snd l) w' else w')
       w (window_listeners w)"

definition setTheme :: "theme_arg \<Rightarrow> 'a world \<Rightarrow> 'a world" where
  "setTheme th w =
     (let w1 = w\<lparr>currentTheme := (case th of Preset p \<Rightarrow> themes p | Object t \<Rightarrow> t)\<rparr>;
          w2 = applyCSSProperties (currentTheme w1) w1
      in dispatch_theme_change w2)"

text \<open>
  \<open>addEventListener\<close> of the base class: registers the handler on its target and records
  the triple for \<open>destroy\<close>. A node other than \<open>window\<close> and the instance's element keeps
  no state here.
\<close>

definition addEventListener :: "target \<Rightarrow> string \<Rightarrow> nat \<Rightarrow> 'a world \<Rightarrow> 'a world" where
  "addEventListener tgt ev i w =
     (let w1 = (case tgt of
                  Window \<Rightarrow> w\<lparr>window_listeners := window_listeners w @ [(ev, i)]\<rparr>
                | OwnElement \<Rightarrow>
                    update_instance i
                      (\<lambda>c. c\<lparr>element := (element c)\<lparr>el_listeners := el_listeners (element c) @ [ev]\<rparr>\<rparr>) w
                | OtherNode n \<Rightarrow> w)
      in update_instance i (\<lambda>c. c\<lparr>listeners := listeners c @ [(tgt, ev)]\<rparr>) w1)"

definition removeEventListener :: "target \<Rightarrow> string \<Rightarrow> nat \<Rightarrow> 'a world \<Rightarrow> 'a world" where
  "removeEventListener tgt ev i w =
     (case tgt of
        Window \<Rightarrow> w\<lparr>window_listeners := remove1 (ev, i) (window_listeners w)\<rparr>
      | OwnElement \<Rightarrow>
          update_instance i
            (\<lambda>c. c\<lparr>element := (element c)\<lparr>el_listeners := remove1 ev (el_listeners (element c))\<rparr>\<rparr>) w
      | OtherNode n \<Rightarrow> w)"

definition bindEvents :: "nat \<Rightarrow> 'a world \<Rightarrow> 'a world" where
  "bindEvents i w =
     (let w1 = addEventListener Window ''np:theme-change'' i w
      in if truthy_bool (config_disabled (instances w1 i))
         then update_instance i (setDisabled True) w1 else w1)"

text \<open>
  The constructor. \<open>init\<close> is abstract and \<open>bindEvents\<close> overridable, so both are
  arguments; \<open>ext\<close> is the state of the subclass's fields while \<open>super()\<close> runs. When
  \<open>init\<close> or \<open>bindEvents\<close> raises, so does the constructor, and no instance is handed
  out.
\<close>

definition construct ::
    "(nat \<Rightarrow> 'a world \<Rightarrow> 'a world outcome) \<Rightarrow> (nat \<Rightarrow> 'a world \<Rightarrow> 'a world outcome) \<Rightarrow>
     element option \<Rightarrow> theme_arg option \<Rightarrow> jsstring option \<Rightarrow> bool option \<Rightarrow> 'a \<Rightarrow> 'a world \<Rightarrow>
     js_error + nat \<times> 'a world" where
  "construct init bind el cfg_theme cfg_className cfg_disabled ext w =
     (case el of
        None \<Rightarrow> Inl InvalidElement
      | Some e \<Rightarrow>
          (let i = next_instance w;
               c = \<lparr>element = e, config_theme = cfg_theme, config_className = cfg_className,
                    config_disabled = cfg_disabled,
                    theme = (case cfg_theme of
                               Some (Preset p) \<Rightarrow> getCurrentTheme w
                             | Some (Object th) \<Rightarrow> th
                             | None \<Rightarrow> getCurrentTheme w),
                    listeners = [], destroyed = False, \<dots> = ext\<rparr>;
               w1 = w\<lparr>instances := (instances w)(i := c), next_instance := Suc i\<rparr>
           in case and_then (init i w1) (bind i) of
                Throws ex w3 \<Rightarrow> Inl ex
              | Returns w3 \<Rightarrow> Inr (i, w3)))"

text \<open>
  \<open>update(newConfig)\<close>. A key of \<open>newConfig\<close> is present with a value or absent
  (\<open>None\<close>); two theme objects are taken to be the same object when they are equal.
  \<open>onUpdate\<close> is the subclass's hook.
\<close>

record config_update =
  new_theme :: "theme_arg option"
  new_className :: "jsstring option"
  new_disabled :: "bool option"

definition update ::
    "(config_update \<Rightarrow> nat \<Rightarrow> 'a world \<Rightarrow> 'a world outcome) \<Rightarrow> config_update \<Rightarrow> nat \<Rightarrow>
     'a world \<Rightarrow> 'a world outcome" where
  "update onUpdate newConfig i w =
     (if destroyed (instances w i) then Returns w
      else
        (let old_theme = config_theme (instances w i);
             old_className = config_className (instances w i);
             old_disabled = config_disabled (instances w i);
             w1 = update_instance i
                    (\<lambda>c. c\<lparr>config_theme := (case new_theme newConfig of
                                               Some t \<Rightarrow> Some t | None \<Rightarrow> config_theme c),
                            config_className := (case new_className newConfig of
                                                   Some n \<Rightarrow> Some n | None \<Rightarrow> config_className c),
                            config_disabled := (case new_disabled newConfig of
                                                  Some b \<Rightarrow> Some b | None \<Rightarrow> config_disabled c)\<rparr>) w
         in and_then
              (case new_theme newConfig of
                 Some t \<Rightarrow>
                   if Some t \<noteq> old_theme
                   then on_instance i
                          (\<lambda>c. onThemeChange
                                 (c\<lparr>theme := (case t of Preset p \<Rightarrow> getCurrentTheme w1
                                                 | Object th \<Rightarrow> th)\<rparr>)) w1
                   else Returns w1
               | None \<Rightarrow> Returns w1)
              (\<lambda>w2.
                 and_then
                   (Returns (case new_disabled newConfig of
                               Some b \<Rightarrow> if Some b \<noteq> old_disabled
                                         then update_instance i (setDisabled b) w2 else w2
                             | None \<Rightarrow> w2))
                   (\<lambda>w3.
                      and_then
                        (if new_className newConfig \<noteq> old_className
                         then and_then
                                (case old_className of
                                   Some n \<Rightarrow>
                                     if n \<noteq> []
                                     then on_instance i
                                            (\<lambda>c. case DOMTokenList_remove n (element c) of
                                                   Returns e \<Rightarrow> Returns (c\<lparr>element := e\<rparr>)
                                                 | Throws ex e \<Rightarrow> Throws ex (c\<lparr>element := e\<rparr>)) w3
                                     else Returns w3
                                 | None \<Rightarrow> Returns w3)
                                (\<lambda>w4. case new_className newConfig of
                                         Some n \<Rightarrow>
                                           if n \<noteq> []
                                           then on_instance i
                                                  (\<lambda>c. case DOMTokenList_add n (element c) of
                                                         Returns e \<Rightarrow> Returns (c\<lparr>element := e\<rparr>)
                                                       | Throws ex e \<Rightarrow> Throws ex (c\<lparr>element := e\<rparr>)) w4
                                           else Returns w4
                                       | None \<Rightarrow> Returns w4)
                         else Returns w3)
                        (onUpdate newConfig i)))))"

text \<open>
  \<open>destroy\<close>. \<open>teardown\<close> is what it does before the hook: every recorded listener
  removed, the base class and the class name of the configuration removed, the
  \<open>np:destroy\<close> event dispatched. \<open>classList.remove\<close> raises on a class name that is
  no valid token, before \<open>_destroyed\<close> is set. \<open>onDestroy\<close> is the subclass's cleanup
  hook, which may raise as well; \<open>_destroyed = true\<close> is the last statement.
\<close>

definition teardown :: "nat \<Rightarrow> 'a world \<Rightarrow> 'a world outcome" where
  "teardown i w =
     (let ls = listeners (instances w i);
          w1 = foldl (\<lambda>w' l. removeEventListener (fst l) (snd l) i w') w ls;
          w2 = update_instance i (\<lambda>c. c\<lparr>listeners := []\<rparr>) w1;
          w3 = update_instance i
                 (\<lambda>c. c\<lparr>element := classList_remove (js ''np-component'') (element c)\<rparr>) w2
      in and_then
           (case config_className (instances w3 i) of
              Some n \<Rightarrow>
                if n \<noteq> []
                then on_instance i
                       (\<lambda>c. case DOMTokenList_remove n (element c) of
                              Returns e \<Rightarrow> Returns (c\<lparr>element := e\<rparr>)
                            | Throws ex e \<Rightarrow> Throws ex (c\<lparr>element := e\<rparr>)) w3
                else Returns w3
            | None \<Rightarrow> Returns w3)
           (\<lambda>w4. Returns (update_instance i (emit ''destroy'') w4)))"

definition mark_destroyed :: "nat \<Rightarrow> 'a world \<Rightarrow> 'a world" where
  "mark_destroyed i w = update_instance i (\<lambda>c. c\<lparr>destroyed := True\<rparr>) w"

definition destroy ::
    "(nat \<Rightarrow> 'a world \<Rightarrow> 'a world outcome) \<Rightarrow> nat \<Rightarrow> 'a world \<Rightarrow> 'a world outcome" where
  "destroy onDestroy i w =
     (if destroyed (instances w i) then Returns w
      else and_then (teardown i w)
             (\<lambda>w5. and_then (onDestroy i w5) (\<lambda>w6. Returns (mark_destroyed i w6))))"

text \<open>The class name of the configuration is unset, empty or a valid token.\<close>

definition className_ok :: "'a component_scheme \<Rightarrow> bool" where
  "className_ok c =
     (case config_className c of
        None \<Rightarrow> True
      | Some n \<Rightarrow> n = [] \<or> token_error n = None)"

section \<open>ValidationManager (validators.ts)\<close>

text \<open>
  The error node is created on first use and inserted after the element; the maps record
  that it exists, its text and its \<open>display\<close>.
\<close>

definition removeErrorDisplay :: "nat \<Rightarrow> 'a world \<Rightarrow> 'a world" where
  "removeErrorDisplay k w =
     (case errorElements w k of
        Some en \<Rightarrow>
          w\<lparr>errorElements :=
              (errorElements w)(k \<mapsto> en\<lparr>err_display := js ''none'', err_textContent := []\<rparr>)\<rparr>
      | None \<Rightarrow> w)"

definition showErrorDisplay :: "nat \<Rightarrow> jsstring \<Rightarrow> 'a world \<Rightarrow> 'a world" where
  "showErrorDisplay k errorMessage w =
     (let en = (case errorElements w k of
                  Some en \<Rightarrow> en
                | None \<Rightarrow> \<lparr>err_textContent = [], err_display = []\<rparr>)
      in w\<lparr>errorElements :=
             (errorElements w)(k \<mapsto> en\<lparr>err_textContent := errorMessage,
                                         err_display := js ''block''\<rparr>)\<rparr>)"

definition updateErrorDisplay :: "nat \<Rightarrow> ValidationResult \<Rightarrow> 'a world \<Rightarrow> 'a world" where
  "updateErrorDisplay k result w =
     (if isValid result
      then update_instance k (\<lambda>c. c\<lparr>element := classList_remove (js ''np-error'') (element c)\<rparr>)
             (removeErrorDisplay k w)
      else update_instance k (\<lambda>c. c\<lparr>element := classList_add (js ''np-error'') (element c)\<rparr>)
             (showErrorDisplay k (case errors result of [] \<Rightarrow> [] | e # es \<Rightarrow> e) w))"

definition manager_validate ::
    "nat \<Rightarrow> rule_set \<Rightarrow> 'a world \<Rightarrow> ValidationResult \<times> 'a world" where
  "manager_validate k config w =
     (let v = getElementValue (element (instances w k));
          result = validateValue v config;
          w1 = w\<lparr>validationState := (validationState w)(k \<mapsto> result)\<rparr>
      in (result, updateErrorDisplay k result w1))"

definition clearValidation :: "nat \<Rightarrow> 'a world \<Rightarrow> 'a world" where
  "clearValidation k w =
     removeErrorDisplay k (w\<lparr>validationState := (validationState w)(k := None)\<rparr>)"

definition getValidationState :: "nat \<Rightarrow> 'a world \<Rightarrow> ValidationResult option" where
  "getValidationState k w = validationState w k"

section \<open>InputComponent (components/input.ts)\<close>

datatype validate_on = OnBlur | OnChange | OnSubmit

record input = component +
  inputConfig_validate :: "rule_set option"
  inputConfig_placeholder :: "jsstring option"
  inputConfig_errorMessage :: "jsstring option"
  inputConfig_showValidation :: "bool option"
  inputConfig_validateOn :: "validate_on option"
  validationResult :: "ValidationResult option"

definition getValue :: "'a component_scheme \<Rightarrow> jsstring" where
  "getValue c = getElementValue (element c)"

text \<open>
  \<open>updateValidationState\<close> reads the stored result, the element and the theme; the input
  and the textarea have the same text of it.
\<close>

definition updateValidationState ::
    "ValidationResult option \<Rightarrow> 'a component_scheme \<Rightarrow> 'a component_scheme" where
  "updateValidationState vr c =
     (case vr of
        None \<Rightarrow> c
      | Some r \<Rightarrow>
          (let e1 = setAttribute ''aria-invalid'' (if isValid r then js ''false'' else js ''true'')
                      (element c)
           in if isValid r
              then c\<lparr>element := setProperty ''box-shadow'' (ShadowStyle Inset (theme c))
                                  (classList_remove (js ''np-error'') e1)\<rparr>
              else c\<lparr>element := setProperty ''box-shadow''
                                  (RingedShadowStyle Inset (theme c) (colors_error (theme c)))
                                  (addClassName e1 (js ''error''))\<rparr>))"

definition performValidation ::
    "nat \<Rightarrow> 'b input_ext world \<Rightarrow> ValidationResult option \<times> 'b input_ext world" where
  "performValidation i w =
     (case inputConfig_validate (instances w i) of
        None \<Rightarrow> (None, w)
      | Some rules \<Rightarrow>
          if \<not> truthy_bool (inputConfig_showValidation (instances w i)) then (None, w)
          else
            (let v = getValue (instances w i);
                 w1 = update_instance i (\<lambda>c. c\<lparr>validationResult := Some (validateValue v rules)\<rparr>) w;
                 w2 = snd (manager_validate i rules w1);
                 w3 = update_instance i (\<lambda>c. updateValidationState (validationResult c) c) w2;
                 w4 = update_instance i (emit ''validation'') w3
             in (validationResult (instances w4 i), w4)))"

text \<open>\<open>return this.performValidation() || { isValid: true, errors: [] }\<close>\<close>

definition validate :: "nat \<Rightarrow> 'b input_ext world \<Rightarrow> ValidationResult \<times> 'b input_ext world" where
  "validate i w =
     (case performValidation i w of
        (None, w') \<Rightarrow> (\<lparr>isValid = True, errors = []\<rparr>, w')
      | (Some r, w') \<Rightarrow> (r, w'))"

definition input_onDestroy :: "nat \<Rightarrow> 'a world \<Rightarrow> 'a world" where
  "input_onDestroy i w = clearValidation i w"

section \<open>TextareaComponent\<close>

record textarea = component +
  textareaConfig_autoResize :: "bool option"
  textareaConfig_maxHeight :: "jsstring option"
  textareaConfig_minHeight :: "jsstring option"
  textareaConfig_placeholder :: "jsstring option"
  textareaConfig_validate :: "rule_set option"
  textareaConfig_validateOn :: "validate_on option"
  textareaConfig_showValidation :: "bool option"
  textarea_validationResult :: "ValidationResult option"

definition textarea_performValidation ::
    "nat \<Rightarrow> 'b textarea_ext world \<Rightarrow> ValidationResult option \<times> 'b textarea_ext world" where
  "textarea_performValidation i w =
     (case textareaConfig_validate (instances w i) of
        None \<Rightarrow> (None, w)
      | Some rules \<Rightarrow>
          if \<not> truthy_bool (textareaConfig_showValidation (instances w i)) then (None, w)
          else
            (let v = getValue (instances w i);
                 w1 = update_instance i
                        (\<lambda>c. c\<lparr>textarea_validationResult := Some (validateValue v rules)\<rparr>) w;
                 w2 = snd (manager_validate i rules w1);
                 w3 = update_instance i
                        (\<lambda>c. updateValidationState (textarea_validationResult c) c) w2;
                 w4 = update_instance i (emit ''validation'') w3
             in (textarea_validationResult (instances w4 i), w4)))"

definition textarea_validate ::
    "nat \<Rightarrow> 'b textarea_ext world \<Rightarrow> ValidationResult \<times> 'b textarea_ext world" where
  "textarea_validate i w =
     (case textarea_performValidation i w of
        (None, w') \<Rightarrow> (\<lparr>isValid = True, errors = []\<rparr>, w')
      | (Some r, w') \<Rightarrow> (r, w'))"

section \<open>PasswordComponent\<close>

datatype toggle_position = PosLeft | PosRight

record password = input +
  passwordConfig_showToggle :: "bool option"
  passwordConfig_togglePosition :: "toggle_position option"
  passwordConfig_strengthIndicator :: "bool option"
  isVisible :: bool
  has_toggleButton :: bool
  has_strengthIndicator :: bool

text \<open>\<open>const password = this.getValue(); return password ? validatePasswordStrength(password) : null\<close>\<close>

definition getPasswordStrength :: "'a password_scheme \<Rightarrow> PasswordStrength option" where
  "getPasswordStrength c =
     (let password = getValue c
      in if password \<noteq> [] then Some (validatePasswordStrength password) else None)"

section \<open>ButtonComponent\<close>

datatype size = Sm | Md | Lg
datatype button_variant = Primary | Secondary | Ghost

text \<open>
  The configuration a caller passes (a key is present or absent), and \<open>_buttonConfig\<close>
  as the constructor assigns it, the defaults under the keys given. The field is assigned
  after \<open>super()\<close> has returned: while \<open>super()\<close> runs, and so while \<open>init\<close> and
  \<open>bindEvents\<close> run, it is \<open>undefined\<close>, here \<open>None\<close>.
\<close>

record ButtonConfig =
  cfg_theme :: "theme_arg option"
  cfg_className :: "jsstring option"
  cfg_disabled :: "bool option"
  cfg_variant :: "button_variant option"
  cfg_button_size :: "size option"
  cfg_loading :: "bool option"

record button_config =
  bc_variant :: button_variant
  bc_size :: size
  bc_loading :: bool

record button = component +
  buttonConfig :: "button_config option"
  loadingSpinner :: bool
  originalContent :: "jsstring option"

definition merge_button_config :: "ButtonConfig \<Rightarrow> button_config" where
  "merge_button_config config =
     \<lparr>bc_variant = (case cfg_variant config of Some v \<Rightarrow> v | None \<Rightarrow> Primary),
      bc_size = (case cfg_button_size config of Some s \<Rightarrow> s | None \<Rightarrow> Md),
      bc_loading = (case cfg_loading config of Some b \<Rightarrow> b | None \<Rightarrow> False)\<rparr>"

text \<open>
  The markup of the two children that \<open>setLoading(true)\<close> appends: the spinner
  \<open>span\<close> (its \<open>style\<close> attribute written as the assignments of
  \<open>createLoadingSpinner\<close>; a browser may spell their serialisation otherwise) and the
  text \<open>span\<close>.
\<close>

definition spinner_markup :: jsstring where
  "spinner_markup =
     js ''<span class='' @ [0x22] @ js ''np-loading-spinner'' @ [0x22] @ js '' style='' @ [0x22]
     @ js ''display: inline-block; width: 16px; height: 16px; border: 2px solid transparent; ''
     @ js ''border-top: 2px solid currentColor; border-radius: 50%; ''
     @ js ''animation: np-spin 1s linear infinite;'' @ [0x22] @ js ''></span>''"

definition loadingText_markup :: jsstring where
  "loadingText_markup = js ''<span>Loading...</span>''"

definition ensureSpinnerKeyframes :: "'a world \<Rightarrow> 'a world" where
  "ensureSpinnerKeyframes w =
     (if ''np-spinner-keyframes'' \<in> set (head_styles w) then w
      else w\<lparr>head_styles := head_styles w @ [''np-spinner-keyframes'']\<rparr>)"

definition set_innerHTML :: "jsstring \<Rightarrow> 'a component_scheme \<Rightarrow> 'a component_scheme" where
  "set_innerHTML h c = c\<lparr>element := (element c)\<lparr>el_innerHTML := h\<rparr>\<rparr>"

definition set_styles :: "(string \<times> css_value) list \<Rightarrow> element \<Rightarrow> element" where
  "set_styles ps e = foldl (\<lambda>el pv. setProperty (fst pv) (snd pv) el) e ps"

text \<open>
  \<open>setLoading\<close>. Its first statement is \<open>this._buttonConfig.loading = loading\<close>, which
  raises a \<open>TypeError\<close> while the field is \<open>undefined\<close>.
\<close>

definition setLoading :: "bool \<Rightarrow> nat \<Rightarrow> 'b button_ext world \<Rightarrow> 'b button_ext world outcome" where
  "setLoading loading i w =
     (case buttonConfig (instances w i) of
        None \<Rightarrow> Throws TypeError w
      | Some bc \<Rightarrow>
     (let w1 = update_instance i (\<lambda>c. c\<lparr>buttonConfig := Some (bc\<lparr>bc_loading := loading\<rparr>)\<rparr>) w;
          w2 =
            (if loading
             then
               (let wa = update_instance i
                           (\<lambda>c. c\<lparr>originalContent := Some (el_innerHTML (element c))\<rparr>) w1;
                    wb = update_instance i
                           (\<lambda>c. c\<lparr>element :=
                                   setProperty ''opacity'' (Text (js ''0.7''))
                                     (setProperty ''cursor'' (Text (js ''not-allowed''))
                                       (setAttribute ''disabled'' [] (element c)))\<rparr>) wa;
                    wc = update_instance i (\<lambda>c. c\<lparr>loadingSpinner := True\<rparr>)
                           (ensureSpinnerKeyframes wb);
                    wd = update_instance i (set_innerHTML []) wc;
                    we = update_instance i
                           (\<lambda>c. set_innerHTML (el_innerHTML (element c) @ spinner_markup) c) wd;
                    wf = update_instance i
                           (\<lambda>c. set_innerHTML (el_innerHTML (element c) @ loadingText_markup) c) we
                in update_instance i (\<lambda>c. c\<lparr>element := addClassName (element c) (js ''loading'')\<rparr>) wf)
             else
               (let wa = update_instance i
                           (\<lambda>c. case originalContent c of
                                   Some h \<Rightarrow> if h \<noteq> [] then set_innerHTML h c else c
                                 | None \<Rightarrow> c) w1;
                    wb = update_instance i
                           (\<lambda>c. if truthy_bool (config_disabled c)
                                 then c\<lparr>element :=
                                         setProperty ''opacity'' (Text (js ''0.5''))
                                           (setProperty ''cursor'' (Text (js ''not-allowed''))
                                             (setAttribute ''disabled'' [] (element c)))\<rparr>
                                 else c\<lparr>element :=
                                         setProperty ''opacity'' (Text (js ''1''))
                                           (setProperty ''cursor'' (Text (js ''pointer''))
                                             (removeAttribute ''disabled'' (element c)))\<rparr>) wa;
                    wc = update_instance i (\<lambda>c. c\<lparr>loadingSpinner := False\<rparr>) wb
                in update_instance i
                     (\<lambda>c. c\<lparr>element := classList_remove (js ''np-loading'') (element c)\<rparr>) wc))
      in Returns (update_instance i (emit ''loading-change'') w2)))"

text \<open>The \<open>disabled\<close> property of the button reflects the attribute of that name.\<close>

definition is_disabled :: "element \<Rightarrow> bool" where
  "is_disabled e = (el_attributes e ''disabled'' \<noteq> None)"

text \<open>\<open>getSizeValue\<close>, \<open>applyVariantStyles\<close> and \<open>applySizeStyles\<close>.\<close>

fun variant_name :: "button_variant \<Rightarrow> jsstring" where
  "variant_name Primary = js ''primary''"
| "variant_name Secondary = js ''secondary''"
| "variant_name Ghost = js ''ghost''"

fun size_name :: "size \<Rightarrow> jsstring" where
  "size_name Sm = js ''sm''"
| "size_name Md = js ''md''"
| "size_name Lg = js ''lg''"

fun size_padding :: "size \<Rightarrow> jsstring" where
  "size_padding Sm = js ''8px 12px''"
| "size_padding Md = js ''12px 16px''"
| "size_padding Lg = js ''16px 24px''"

fun size_height :: "size \<Rightarrow> jsstring" where
  "size_height Sm = js ''32px''"
| "size_height Md = js ''40px''"
| "size_height Lg = js ''48px''"

fun size_fontSize :: "size \<Rightarrow> jsstring" where
  "size_fontSize Sm = js ''14px''"
| "size_fontSize Md = js ''16px''"
| "size_fontSize Lg = js ''18px''"

definition applyVariantStyles :: "button_variant \<Rightarrow> 'a component_scheme \<Rightarrow> 'a component_scheme" where
  "applyVariantStyles v c =
     c\<lparr>element :=
         set_styles
           (case v of
              Primary \<Rightarrow> [(''background-color'', Text (colors_accent (theme c))),
                          (''color'', Text (js ''#ffffff'')),
                          (''box-shadow'', ShadowStyle Raised (theme c))]
            | Secondary \<Rightarrow> [(''background-color'', Text (colors_surface (theme c))),
                            (''color'', Text (colors_text (theme c))),
                            (''box-shadow'', ShadowStyle Raised (theme c))]
            | Ghost \<Rightarrow> [(''background-color'', Text (js ''transparent'')),
                        (''color'', Text (colors_text (theme c))),
                        (''box-shadow'', Text (js ''none''))])
           (element c)\<rparr>"

definition applySizeStyles :: "size \<Rightarrow> 'a component_scheme \<Rightarrow> 'a component_scheme" where
  "applySizeStyles s c =
     c\<lparr>element :=
         set_styles [(''padding'', Text (size_padding s)), (''font-size'', Text (size_fontSize s)),
                     (''min-height'', Text (size_height s))] (element c)\<rparr>"

text \<open>
  \<open>init\<close> of the button: \<open>applyBaseStyles\<close>, then \<open>applyButtonStyles\<close>, whose second
  statement reads \<open>this._buttonConfig.variant\<close>, then \<open>setupInteractions\<close> with its six
  listeners.
\<close>

definition button_init :: "nat \<Rightarrow> 'b button_ext world \<Rightarrow> 'b button_ext world outcome" where
  "button_init i w =
     and_then (on_instance i applyBaseStyles w)
       (\<lambda>w1.
          (let w2 = update_instance i (\<lambda>c. c\<lparr>element := addClassName (element c) (js ''button'')\<rparr>) w1
           in case buttonConfig (instances w2 i) of
                None \<Rightarrow> Throws TypeError w2
              | Some bc \<Rightarrow>
                  (let w3 = update_instance i
                              (\<lambda>c. c\<lparr>element :=
                                 set_styles
                                   [(''cursor'', Text (js ''pointer'')),
                                    (''user-select'', Text (js ''none'')),
                                    (''display'', Text (js ''inline-flex'')),
                                    (''align-items'', Text (js ''center'')),
                                    (''justify-content'', Text (js ''center'')),
                                    (''gap'', Text (js ''8px'')),
                                    (''font-weight'', Text (js ''500'')),
                                    (''text-decoration'', Text (js ''none'')),
                                    (''white-space'', Text (js ''nowrap'')),
                                    (''position'', Text (js ''relative'')),
                                    (''overflow'', Text (js ''hidden''))]
                                   (addClassName
                                     (addClassName (element c) (js ''button-'' @ variant_name (bc_variant bc)))
                                     (js ''button-'' @ size_name (bc_size bc)))\<rparr>) w2;
                       w4 = update_instance i
                              (\<lambda>c. applySizeStyles (bc_size bc) (applyVariantStyles (bc_variant bc) c)) w3
                   in and_then (if bc_loading bc then setLoading True i w4 else Returns w4)
                        (\<lambda>w5. Returns
                           (foldl (\<lambda>w' ev. addEventListener OwnElement ev i w') w5
                              [''mouseenter'', ''mouseleave'', ''mousedown'', ''mouseup'',
                               ''focus'', ''blur''])))))"

definition button_bindEvents :: "nat \<Rightarrow> 'b button_ext world \<Rightarrow> 'b button_ext world outcome" where
  "button_bindEvents i w =
     Returns (addEventListener OwnElement ''keydown'' i
               (addEventListener OwnElement ''click'' i (bindEvents i w)))"

text \<open>
  The constructor of the button: the element must be an \<open>HTMLButtonElement\<close>
  (\<open>None\<close>: no element at all); then \<open>super(element, config)\<close>, with
  \<open>_buttonConfig\<close> not assigned yet; then the assignment of \<open>_buttonConfig\<close>.
\<close>

definition new_ButtonComponent ::
    "element option \<Rightarrow> ButtonConfig \<Rightarrow> unit button_ext world \<Rightarrow> js_error + nat \<times> unit button_ext world" where
  "new_ButtonComponent el config w =
     (case el of
        None \<Rightarrow> Inl WrongElementKind
      | Some e \<Rightarrow>
          if el_tag e \<noteq> ButtonElement then Inl WrongElementKind
          else
            (case construct button_init button_bindEvents (Some e) (cfg_theme config)
                    (cfg_className config) (cfg_disabled config)
                    \<lparr>buttonConfig = None, loadingSpinner = False, originalContent = None\<rparr> w of
               Inl ex \<Rightarrow> Inl ex
             | Inr (i, w') \<Rightarrow>
                 Inr (i, update_instance i
                           (\<lambda>c. c\<lparr>buttonConfig := Some (merge_button_config config)\<rparr>) w')))"

section \<open>ToggleComponent\<close>

text \<open>
  The native checkbox or radio input that a toggle replaces; \<open>in_node\<close> is the same node
  seen as an element. Two radio inputs are in one group when they have the same form
  owner and the same non-empty name; the browser, when the checkedness of a radio input
  is set to true, sets that of every other input of its group to false and fires no event
  on them.
\<close>

datatype input_type = CheckboxType | RadioType | OtherInputType

record native_input =
  in_node :: element
  in_type :: input_type
  in_name :: jsstring
  in_form :: "nat option"
  in_checked :: bool
  in_value :: jsstring
  in_aria_checked :: "jsstring option"

datatype toggle_kind = Switch | Checkbox | Radio

text \<open>
  The configuration a caller passes and \<open>_toggleConfig\<close> as the constructor assigns it.
  \<open>_toggleConfig\<close> and \<open>_originalInput\<close> are assigned after \<open>super()\<close> has returned and
  are \<open>undefined\<close> (\<open>None\<close>) while it runs. Once a wrapper is created \<open>_element\<close> is the
  wrapper, so \<open>has_wrapper\<close> says that \<open>element\<close> is one. \<open>_isChecked\<close> is always
  written before it is read, so it is a boolean throughout.
\<close>

record ToggleConfig =
  tcfg_theme :: "theme_arg option"
  tcfg_className :: "jsstring option"
  tcfg_disabled :: "bool option"
  tcfg_type :: "toggle_kind option"
  tcfg_size :: "size option"
  tcfg_animated :: "bool option"
  tcfg_checked :: "bool option"

record toggle_config =
  tc_type :: toggle_kind
  tc_size :: size
  tc_animated :: bool
  tc_checked :: bool

record toggle = component +
  toggleConfig :: "toggle_config option"
  isChecked :: bool
  has_wrapper :: bool
  slider :: "element option"
  originalInput :: "native_input option"

definition merge_toggle_config :: "ToggleConfig \<Rightarrow> toggle_config" where
  "merge_toggle_config config =
     \<lparr>tc_type = (case tcfg_type config of Some t \<Rightarrow> t | None \<Rightarrow> Switch),
      tc_size = (case tcfg_size config of Some s \<Rightarrow> s | None \<Rightarrow> Md),
      tc_animated = (case tcfg_animated config of Some b \<Rightarrow> b | None \<Rightarrow> True),
      tc_checked = (case tcfg_checked config of Some b \<Rightarrow> b | None \<Rightarrow> False)\<rparr>"

definition same_radio_group :: "native_input \<Rightarrow> native_input \<Rightarrow> bool" where
  "same_radio_group a b =
     (in_type a = RadioType \<and> in_type b = RadioType \<and> in_name a \<noteq> []
      \<and> in_name a = in_name b \<and> in_form a = in_form b)"

text \<open>\<open>this._originalInput.checked = b\<close> on the input \<open>inp\<close> of instance \<open>i\<close>.\<close>

definition set_checked ::
    "nat \<Rightarrow> native_input \<Rightarrow> bool \<Rightarrow> 'b toggle_ext world \<Rightarrow> 'b toggle_ext world" where
  "set_checked i inp b w =
     w\<lparr>instances :=
         (\<lambda>j. if j = i
               then (instances w i)\<lparr>originalInput := Some (inp\<lparr>in_checked := b\<rparr>)\<rparr>
               else (case originalInput (instances w j) of
                       Some other \<Rightarrow>
                         if b \<and> same_radio_group inp other
                         then (instances w j)\<lparr>originalInput := Some (other\<lparr>in_checked := False\<rparr>)\<rparr>
                         else instances w j
                     | None \<Rightarrow> instances w j))\<rparr>"

fun switch_width :: "size \<Rightarrow> nat" where
  "switch_width Sm = 32"
| "switch_width Md = 44"
| "switch_width Lg = 56"

fun switch_height :: "size \<Rightarrow> nat" where
  "switch_height Sm = 18"
| "switch_height Md = 24"
| "switch_height Lg = 32"

fun switch_sliderSize :: "size \<Rightarrow> nat" where
  "switch_sliderSize Sm = 14"
| "switch_sliderSize Md = 20"
| "switch_sliderSize Lg = 28"

fun radio_inner :: "size \<Rightarrow> nat" where
  "radio_inner Sm = 8"
| "radio_inner Md = 12"
| "radio_inner Lg = 16"

definition px :: "nat \<Rightarrow> css_value" where
  "px n = Text (show_nat n @ js ''px'')"

text \<open>
  The three \<open>update...State\<close> methods return at once when the wrapper or the slider is
  missing.
\<close>

definition updateSwitchState :: "size \<Rightarrow> 'a toggle_scheme \<Rightarrow> 'a toggle_scheme" where
  "updateSwitchState sz c =
     (case slider c of
        None \<Rightarrow> c
      | Some sl \<Rightarrow>
          if \<not> has_wrapper c then c
          else
            (let translateX = (if isChecked c
                               then switch_width sz - switch_sliderSize sz - 4 else 2)
             in if isChecked c
                then c\<lparr>element := addClassName
                           (setProperty ''background-color'' (Text (colors_accent (theme c))) (element c))
                           (js ''checked''),
                       slider := Some (setProperty ''transform''
                           (Text (js ''translateY(-50%) translateX('' @ show_nat translateX @ js ''px)''))
                           sl)\<rparr>
                else c\<lparr>element := classList_remove (js ''np-checked'')
                           (setProperty ''background-color'' (Text (colors_surface (theme c))) (element c)),
                       slider := Some (setProperty ''transform''
                           (Text (js ''translateY(-50%) translateX(0)'')) sl)\<rparr>))"

definition updateCheckboxState :: "'a toggle_scheme \<Rightarrow> 'a toggle_scheme" where
  "updateCheckboxState c =
     (case slider c of
        None \<Rightarrow> c
      | Some sl \<Rightarrow>
          if \<not> has_wrapper c then c
          else if isChecked c
          then c\<lparr>element := addClassName
                     (setProperty ''box-shadow'' (Text (js ''none''))
                       (setProperty ''background-color'' (Text (colors_accent (theme c))) (element c)))
                     (js ''checked''),
                 slider := Some (setProperty ''color'' (Text (js ''white''))
                     (setProperty ''transform'' (Text (js ''translate(-50%, -50%) scale(1)'')) sl))\<rparr>
          else c\<lparr>element := classList_remove (js ''np-checked'')
                     (setProperty ''box-shadow'' (ShadowStyle Inset (theme c))
                       (setProperty ''background-color'' (Text (colors_surface (theme c))) (element c))),
                 slider := Some (setProperty ''transform''
                     (Text (js ''translate(-50%, -50%) scale(0)'')) sl)\<rparr>)"

definition updateRadioState :: "'a toggle_scheme \<Rightarrow> 'a toggle_scheme" where
  "updateRadioState c =
     (case slider c of
        None \<Rightarrow> c
      | Some sl \<Rightarrow>
          if \<not> has_wrapper c then c
          else if isChecked c
          then c\<lparr>element := addClassName (element c) (js ''checked''),
                 slider := Some (setProperty ''transform''
                     (Text (js ''translate(-50%, -50%) scale(1)'')) sl)\<rparr>
          else c\<lparr>element := classList_remove (js ''np-checked'') (element c),
                 slider := Some (setProperty ''transform''
                     (Text (js ''translate(-50%, -50%) scale(0)'')) sl)\<rparr>)"

text \<open>
  \<open>updateVisualState\<close> reads \<open>this._toggleConfig.type\<close> first and writes
  \<open>aria-checked\<close> on \<open>this._originalInput\<close> last; each raises a \<open>TypeError\<close> on an
  \<open>undefined\<close> field.
\<close>

definition updateVisualState :: "'a toggle_scheme \<Rightarrow> 'a toggle_scheme outcome" where
  "updateVisualState c =
     (case toggleConfig c of
        None \<Rightarrow> Throws TypeError c
      | Some tc \<Rightarrow>
          (let c1 = (case tc_type tc of
                       Switch \<Rightarrow> updateSwitchState (tc_size tc) c
                     | Checkbox \<Rightarrow> updateCheckboxState c
                     | Radio \<Rightarrow> updateRadioState c)
           in case originalInput c1 of
                None \<Rightarrow> Throws TypeError c1
              | Some inp \<Rightarrow>
                  Returns (c1\<lparr>originalInput :=
                     Some (inp\<lparr>in_aria_checked :=
                             Some (if isChecked c1 then js ''true'' else js ''false'')\<rparr>)\<rparr>)))"

text \<open>
  \<open>emitChange\<close> dispatches \<open>np:change\<close>, with the value of the original input in its
  detail, and calls the configured \<open>onChange\<close>, a callback of the caller's that is taken to
  leave the page alone.
\<close>

definition emitChange :: "'a toggle_scheme \<Rightarrow> 'a toggle_scheme outcome" where
  "emitChange c =
     (case originalInput c of
        None \<Rightarrow> Throws TypeError c
      | Some inp \<Rightarrow>
          (case toggleConfig c of
             None \<Rightarrow> Throws TypeError (emit ''change'' c)
           | Some tc \<Rightarrow> Returns (emit ''change'' c)))"

text \<open>
  The handler that \<open>bindEvents\<close> registers for \<open>change\<close> on the original input, and the
  dispatch of a \<open>change\<close> event on that input: it bubbles through the ancestors of the
  input, where no instance listens for it. What the handler raises does not reach the
  caller.
\<close>

definition change_listener :: "nat \<Rightarrow> 'b toggle_ext world \<Rightarrow> 'b toggle_ext world" where
  "change_listener i w =
     state_of
       (on_instance i
          (\<lambda>c. case originalInput c of
                 None \<Rightarrow> Throws TypeError c
               | Some inp \<Rightarrow>
                   and_then (updateVisualState (c\<lparr>isChecked := in_checked inp\<rparr>)) emitChange) w)"

definition dispatch_change :: "nat \<Rightarrow> 'b toggle_ext world \<Rightarrow> 'b toggle_ext world" where
  "dispatch_change i w =
     (if (OtherNode ''originalInput'', ''change'') \<in> set (listeners (instances w i))
      then change_listener i w else w)"

definition toggle :: "nat \<Rightarrow> 'b toggle_ext world \<Rightarrow> 'b toggle_ext world outcome" where
  "toggle i w =
     (if truthy_bool (config_disabled (instances w i)) then Returns w
      else
        (let w1 = update_instance i (\<lambda>c. c\<lparr>isChecked := \<not> isChecked c\<rparr>) w
         in case originalInput (instances w1 i) of
              None \<Rightarrow> Throws TypeError w1
            | Some inp \<Rightarrow>
                and_then
                  (on_instance i (\<lambda>c. and_then (updateVisualState c) emitChange)
                     (set_checked i inp (isChecked (instances w1 i)) w1))
                  (\<lambda>w4. Returns (dispatch_change i w4))))"

definition check :: "nat \<Rightarrow> 'b toggle_ext world \<Rightarrow> 'b toggle_ext world outcome" where
  "check i w = (if \<not> isChecked (instances w i) then toggle i w else Returns w)"

definition uncheck :: "nat \<Rightarrow> 'b toggle_ext world \<Rightarrow> 'b toggle_ext world outcome" where
  "uncheck i w = (if isChecked (instances w i) then toggle i w else Returns w)"

definition setChecked :: "bool \<Rightarrow> nat \<Rightarrow> 'b toggle_ext world \<Rightarrow> 'b toggle_ext world outcome" where
  "setChecked checked i w = (if isChecked (instances w i) \<noteq> checked then toggle i w else Returns w)"

text \<open>A click on the wrapper: \<open>handleClick\<close>.\<close>

definition handleClick :: "nat \<Rightarrow> 'b toggle_ext world \<Rightarrow> 'b toggle_ext world outcome" where
  "handleClick i w = (if truthy_bool (config_disabled (instances w i)) then Returns w else toggle i w)"

text \<open>
  \<open>createToggleStructure\<close>: its first statement reads \<open>this._toggleConfig.type\<close>; each
  of the three structures then hides the original input, creates the wrapper and the
  slider, and makes the wrapper \<open>_element\<close>. The original input is taken to have a
  parent element, into which the wrapper is inserted.
\<close>

fun kind_name :: "toggle_kind \<Rightarrow> jsstring" where
  "kind_name Switch = js ''switch''"
| "kind_name Checkbox = js ''checkbox''"
| "kind_name Radio = js ''radio''"

fun slider_class :: "toggle_kind \<Rightarrow> jsstring" where
  "slider_class Switch = js ''np-toggle-slider''"
| "slider_class Checkbox = js ''np-toggle-checkmark''"
| "slider_class Radio = js ''np-toggle-radio-dot''"

definition created_element :: "jsstring list \<Rightarrow> element" where
  "created_element classes =
     \<lparr>el_tag = OtherElement, el_classList = classes, el_attributes = Map.empty,
      el_style = Map.empty, el_innerHTML = [], el_textContent = [], el_value = [],
      el_dispatched = [], el_listeners = []\<rparr>"

definition checkmark_svg :: jsstring where
  "checkmark_svg =
     [0x0A] @ js ''      <svg width='' @ [0x22] @ js ''16'' @ [0x22] @ js '' height='' @ [0x22]
     @ js ''16'' @ [0x22] @ js '' viewBox='' @ [0x22] @ js ''0 0 24 24'' @ [0x22] @ js '' fill=''
     @ [0x22] @ js ''none'' @ [0x22] @ js '' stroke='' @ [0x22] @ js ''currentColor'' @ [0x22]
     @ js '' stroke-width='' @ [0x22] @ js ''3'' @ [0x22] @ js ''>'' @ [0x0A]
     @ js ''        <polyline points='' @ [0x22] @ js ''20,6 9,17 4,12'' @ [0x22] @ js ''/>''
     @ [0x0A] @ js ''      </svg>'' @ [0x0A] @ js ''    ''"

definition createToggleStructure :: "'a toggle_scheme \<Rightarrow> 'a toggle_scheme outcome" where
  "createToggleStructure c =
     (case toggleConfig c of
        None \<Rightarrow> Throws TypeError c
      | Some tc \<Rightarrow>
          (case originalInput c of
             None \<Rightarrow> Throws TypeError c
           | Some inp \<Rightarrow>
               Returns (c\<lparr>originalInput :=
                           Some (inp\<lparr>in_node :=
                                   set_styles [(''position'', Text (js ''absolute'')),
                                               (''opacity'', Text (js ''0'')),
                                               (''pointer-events'', Text (js ''none''))]
                                     (in_node inp)\<rparr>),
                         slider :=
                           Some ((created_element [slider_class (tc_type tc)])
                                   \<lparr>el_innerHTML :=
                                      (if tc_type tc = Checkbox then checkmark_svg else [])\<rparr>),
                         has_wrapper := True,
                         element :=
                           created_element
                             [js ''np-toggle-wrapper'', js ''np-toggle-'' @ kind_name (tc_type tc)]\<rparr>)))"

text \<open>
  \<open>applyToggleStyles\<close>: the classes and the styles of the wrapper and of the slider for
  the kind and the size, then the four listeners of \<open>setupInteractionEffects\<close> on the
  wrapper.
\<close>

definition transition_all :: "NeumorphicTheme \<Rightarrow> css_value" where
  "transition_all th = Text (js ''all '' @ animation_duration th @ js '' '' @ animation_easing th)"

definition transition_transform :: "NeumorphicTheme \<Rightarrow> css_value" where
  "transition_transform th =
     Text (js ''transform '' @ animation_duration th @ js '' '' @ animation_easing th)"

definition wrapper_styles :: "toggle_config \<Rightarrow> NeumorphicTheme \<Rightarrow> (string \<times> css_value) list" where
  "wrapper_styles tc th =
     [(''position'', Text (js ''relative'')), (''display'', Text (js ''inline-flex'')),
      (''align-items'', Text (js ''center'')), (''cursor'', Text (js ''pointer'')),
      (''user-select'', Text (js ''none''))]
     @ (case tc_type tc of
          Switch \<Rightarrow>
            [(''width'', px (switch_width (tc_size tc))),
             (''height'', px (switch_height (tc_size tc))),
             (''border-radius'', px (switch_height (tc_size tc) div 2))]
        | Checkbox \<Rightarrow>
            [(''width'', px (switch_height (tc_size tc))),
             (''height'', px (switch_height (tc_size tc))),
             (''border-radius'', Text (js ''4px''))]
        | Radio \<Rightarrow>
            [(''width'', px (switch_height (tc_size tc))),
             (''height'', px (switch_height (tc_size tc))),
             (''border-radius'', Text (js ''50%''))])
     @ [(''background-color'', Text (colors_surface th)), (''box-shadow'', ShadowStyle Inset th),
        (''transition'', transition_all th)]"

definition slider_styles :: "toggle_config \<Rightarrow> NeumorphicTheme \<Rightarrow> (string \<times> css_value) list" where
  "slider_styles tc th =
     (case tc_type tc of
        Switch \<Rightarrow>
          [(''position'', Text (js ''absolute'')), (''top'', Text (js ''50%'')),
           (''left'', Text (js ''2px'')),
           (''width'', px (switch_sliderSize (tc_size tc))),
           (''height'', px (switch_sliderSize (tc_size tc))),
           (''border-radius'', Text (js ''50%'')),
           (''background-color'', Text (colors_surface th)),
           (''box-shadow'', ShadowStyle Raised th),
           (''transform'', Text (js ''translateY(-50%)'')),
           (''transition'', transition_all th)]
      | Checkbox \<Rightarrow>
          [(''position'', Text (js ''absolute'')), (''top'', Text (js ''50%'')),
           (''left'', Text (js ''50%'')),
           (''transform'', Text (js ''translate(-50%, -50%) scale(0)'')),
           (''color'', Text (colors_accent th)),
           (''transition'', transition_transform th)]
      | Radio \<Rightarrow>
          [(''position'', Text (js ''absolute'')), (''top'', Text (js ''50%'')),
           (''left'', Text (js ''50%'')),
           (''width'', px (radio_inner (tc_size tc))),
           (''height'', px (radio_inner (tc_size tc))),
           (''border-radius'', Text (js ''50%'')),
           (''background-color'', Text (colors_accent th)),
           (''transform'', Text (js ''translate(-50%, -50%) scale(0)'')),
           (''transition'', transition_transform th)])"

definition applyToggleStyles :: "nat \<Rightarrow> 'b toggle_ext world \<Rightarrow> 'b toggle_ext world outcome" where
  "applyToggleStyles i w =
     (case slider (instances w i) of
        None \<Rightarrow> Returns w
      | Some sl \<Rightarrow>
          if \<not> has_wrapper (instances w i) then Returns w
          else
            (case toggleConfig (instances w i) of
               None \<Rightarrow> Throws TypeError w
             | Some tc \<Rightarrow>
                 (let w1 = update_instance i
                             (\<lambda>c. c\<lparr>element :=
                                set_styles (wrapper_styles tc (theme c))
                                  (addClassName
                                    (addClassName
                                      (addClassName (element c) (js ''toggle''))
                                      (js ''toggle-'' @ kind_name (tc_type tc)))
                                    (js ''toggle-'' @ size_name (tc_size tc))),
                                    slider := Some (set_styles (slider_styles tc (theme c)) sl)\<rparr>) w
                  in Returns
                       (foldl (\<lambda>w' ev. addEventListener OwnElement ev i w') w1
                          [''mouseenter'', ''mouseleave'', ''mousedown'', ''mouseup'']))))"

text \<open>
  \<open>init\<close> of the toggle: \<open>applyBaseStyles\<close>, \<open>createToggleStructure\<close>,
  \<open>applyToggleStyles\<close>, and \<open>syncState\<close>, which reads the checkedness of the original
  input and updates the visual state.
\<close>

definition syncState :: "'a toggle_scheme \<Rightarrow> 'a toggle_scheme outcome" where
  "syncState c =
     (case originalInput c of
        None \<Rightarrow> Throws TypeError c
      | Some inp \<Rightarrow> updateVisualState (c\<lparr>isChecked := in_checked inp\<rparr>))"

definition toggle_init :: "nat \<Rightarrow> 'b toggle_ext world \<Rightarrow> 'b toggle_ext world outcome" where
  "toggle_init i w =
     and_then (on_instance i applyBaseStyles w)
       (\<lambda>w1. and_then (on_instance i createToggleStructure w1)
          (\<lambda>w2. and_then (applyToggleStyles i w2)
             (\<lambda>w3. on_instance i syncState w3)))"

text \<open>
  \<open>bindEvents\<close> of the toggle: the base listeners, \<open>click\<close> on the wrapper when there is
  one, \<open>keydown\<close> on the element, \<open>change\<close> on \<open>this._originalInput\<close> (a
  \<open>TypeError\<close> while that is \<open>undefined\<close>), \<open>focus\<close> and \<open>blur\<close> on the element.
\<close>

definition toggle_bindEvents :: "nat \<Rightarrow> 'b toggle_ext world \<Rightarrow> 'b toggle_ext world outcome" where
  "toggle_bindEvents i w =
     (let w1 = bindEvents i w;
          w2 = (if has_wrapper (instances w1 i) then addEventListener OwnElement ''click'' i w1
                else w1);
          w3 = addEventListener OwnElement ''keydown'' i w2
      in case originalInput (instances w3 i) of
           None \<Rightarrow> Throws TypeError w3
         | Some inp \<Rightarrow>
             Returns (addEventListener OwnElement ''blur'' i
                       (addEventListener OwnElement ''focus'' i
                         (addEventListener (OtherNode ''originalInput'') ''change'' i w3))))"

text \<open>
  The constructor of the toggle: the element must be an \<open>HTMLInputElement\<close> of type
  checkbox or radio (\<open>None\<close>: not an input element); then \<open>super(element, config)\<close>,
  with the fields of the subclass not assigned yet; then their assignment.
\<close>

definition new_ToggleComponent ::
    "native_input option \<Rightarrow> ToggleConfig \<Rightarrow> unit toggle_ext world \<Rightarrow> js_error + nat \<times> unit toggle_ext world" where
  "new_ToggleComponent el config w =
     (case el of
        None \<Rightarrow> Inl WrongElementKind
      | Some inp \<Rightarrow>
          if in_type inp \<noteq> CheckboxType \<and> in_type inp \<noteq> RadioType then Inl WrongElementKind
          else
            (case construct toggle_init toggle_bindEvents (Some (in_node inp)) (tcfg_theme config)
                    (tcfg_className config) (tcfg_disabled config)
                    \<lparr>toggleConfig = None, isChecked = False, has_wrapper = False, slider = None,
                     originalInput = None\<rparr> w of
               Inl ex \<Rightarrow> Inl ex
             | Inr (i, w') \<Rightarrow>
                 Inr (i, update_instance i
                           (\<lambda>c. c\<lparr>toggleConfig := Some (merge_toggle_config config),
                                   originalInput := Some inp,
                                   isChecked := (in_checked inp \<or> tc_checked (merge_toggle_config config))\<rparr>)
                           w')))"

section \<open>Concrete inputs\<close>

text \<open>A pattern \<open>/^[0-9]+$/\<close>, a custom function that always fails, and rule sets with them.\<close>

definition digits_only :: RegExp where
  "digits_only s = (s \<noteq> [] \<and> list_all isDigit s)"

definition always_fails :: ValidationFunction where
  "always_fails v = Some (js ''no'')"

definition strict_config :: ValidationConfig where
  "strict_config =
     \<lparr>required = Some True, email = Some True, minLength = Some 5, maxLength = Some 2,
      pattern = Some digits_only, custom = Some [always_fails]\<rparr>"

definition optional_config :: ValidationConfig where
  "optional_config = strict_config\<lparr>required := Some False\<rparr>"

definition pattern_config :: ValidationConfig where
  "pattern_config =
     \<lparr>required = None, email = None, minLength = None, maxLength = None,
      pattern = Some digits_only, custom = None\<rparr>"

text \<open>
  An element with nothing set, the page as the modules leave it when they are loaded (the
  light theme current, nothing registered; \<open>c\<close> stands at every address that holds no
  instance yet), and the \<open>init\<close> that every widget starts with.
\<close>

definition blank_element :: "tag \<Rightarrow> element" where
  "blank_element t =
     \<lparr>el_tag = t, el_classList = [], el_attributes = Map.empty, el_style = Map.empty,
      el_innerHTML = [], el_textContent = [], el_value = [], el_dispatched = [],
      el_listeners = []\<rparr>"

definition page0 :: "'a component_scheme \<Rightarrow> 'a world" where
  "page0 c =
     \<lparr>currentTheme = lightTheme, root_style = Map.empty, head_styles = [],
      window_listeners = [], instances = (\<lambda>i. c), next_instance = 0,
      validationState = Map.empty, errorElements = Map.empty\<rparr>"

definition base_init :: "nat \<Rightarrow> 'a world \<Rightarrow> 'a world outcome" where
  "base_init i w = on_instance i applyBaseStyles w"

definition base_bindEvents :: "nat \<Rightarrow> 'a world \<Rightarrow> 'a world outcome" where
  "base_bindEvents i w = Returns (bindEvents i w)"

definition blank_component :: component where
  "blank_component =
     \<lparr>element = blank_element OtherElement, config_theme = None, config_className = None,
      config_disabled = None, theme = lightTheme, listeners = [], destroyed = False\<rparr>"

text \<open>
  A page with one instance of a subclass whose \<open>init\<close> applies the base styles and that
  overrides nothing else, built by the constructor with the given theme setting and the
  class name \<open>custom-class\<close>.
\<close>

definition page_with :: "theme_arg option \<Rightarrow> unit world" where
  "page_with cfg_theme' =
     (case construct base_init base_bindEvents (Some (blank_element OtherElement)) cfg_theme'
             (Some (js ''custom-class'')) None () (page0 blank_component) of
        Inl e \<Rightarrow> page0 blank_component
      | Inr (i, w) \<Rightarrow> w)"

text \<open>
  A theme object of the caller's, a cleanup hook that leaves a mark in the head of the
  document each time it runs, the hooks of a subclass that overrides none, and the update
  that names two classes in one string.
\<close>

definition sand_theme :: NeumorphicTheme where
  "sand_theme = lightTheme\<lparr>colors_surface := js ''#e8dcc8''\<rparr>"

definition marking_onDestroy :: "nat \<Rightarrow> 'a world \<Rightarrow> 'a world outcome" where
  "marking_onDestroy i w = Returns (w\<lparr>head_styles := head_styles w @ [''cleanup-ran'']\<rparr>)"

definition base_onDestroy :: "nat \<Rightarrow> 'a world \<Rightarrow> 'a world outcome" where
  "base_onDestroy i w = Returns w"

definition base_onUpdate :: "config_update \<Rightarrow> nat \<Rightarrow> 'a world \<Rightarrow> 'a world outcome" where
  "base_onUpdate newConfig i w = Returns w"

definition two_classes :: config_update where
  "two_classes = \<lparr>new_theme = None, new_className = Some (js ''a b''), new_disabled = None\<rparr>"

definition page_after_failed_update :: "unit world" where
  "page_after_failed_update = state_of (update base_onUpdate two_classes 0 (page_with None))"

definition page_after_failed_destroy :: "unit world" where
  "page_after_failed_destroy = state_of (destroy base_onDestroy 0 page_after_failed_update)"

text \<open>
  A \<open>button\<close> element with the content \<open>Save\<close>, a radio input of the group
  \<open>plan\<close>, and the configurations \<open>{}\<close> and \<open>{ type: 'radio' }\<close>.
\<close>

definition save_button :: element where
  "save_button = (blank_element ButtonElement)\<lparr>el_innerHTML := js ''Save''\<rparr>"

definition empty_ButtonConfig :: ButtonConfig where
  "empty_ButtonConfig =
     \<lparr>cfg_theme = None, cfg_className = None, cfg_disabled = None, cfg_variant = None,
      cfg_button_size = None, cfg_loading = None\<rparr>"

definition plan_radio :: native_input where
  "plan_radio =
     \<lparr>in_node = blank_element InputElement, in_type = RadioType, in_name = js ''plan'',
      in_form = None, in_checked = False, in_value = js ''basic'', in_aria_checked = None\<rparr>"

definition radio_ToggleConfig :: ToggleConfig where
  "radio_ToggleConfig =
     \<lparr>tcfg_theme = None, tcfg_className = None, tcfg_disabled = None, tcfg_type = Some Radio,
      tcfg_size = None, tcfg_animated = None, tcfg_checked = None\<rparr>"

text \<open>An input field with the given value and rules.\<close>

definition input_with :: "jsstring \<Rightarrow> rule_set option \<Rightarrow> bool option \<Rightarrow> input" where
  "input_with v rules sv =
     \<lparr>element = (blank_element InputElement)\<lparr>el_value := v\<rparr>,
      config_theme = None, config_className = None, config_disabled = None,
      theme = lightTheme, listeners = [], destroyed = False,
      inputConfig_validate = rules, inputConfig_placeholder = None,
      inputConfig_errorMessage = None, inputConfig_showValidation = sv,
      inputConfig_validateOn = Some OnBlur, validationResult = None\<rparr>"

definition textarea_with :: "jsstring \<Rightarrow> rule_set option \<Rightarrow> bool option \<Rightarrow> textarea" where
  "textarea_with v rules sv =
     \<lparr>element = (blank_element TextAreaElement)\<lparr>el_value := v\<rparr>,
      config_theme = None, config_className = None, config_disabled = None,
      theme = lightTheme, listeners = [], destroyed = False,
      textareaConfig_autoResize = Some True, textareaConfig_maxHeight = Some (js ''200px''),
      textareaConfig_minHeight = Some (js ''80px''), textareaConfig_placeholder = None,
      textareaConfig_validate = rules, textareaConfig_validateOn = Some OnBlur,
      textareaConfig_showValidation = sv, textarea_validationResult = None\<rparr>"

definition password_with :: "jsstring \<Rightarrow> password" where
  "password_with v =
     \<lparr>element = (blank_element InputElement)\<lparr>el_value := v\<rparr>,
      config_theme = None, config_className = None, config_disabled = None,
      theme = lightTheme, listeners = [], destroyed = False,
      inputConfig_validate = None, inputConfig_placeholder = None,
      inputConfig_errorMessage = None, inputConfig_showValidation = Some True,
      inputConfig_validateOn = Some OnBlur, validationResult = None,
      passwordConfig_showToggle = Some True, passwordConfig_togglePosition = Some PosRight,
      passwordConfig_strengthIndicator = Some False, isVisible = False,
      has_toggleButton = True, has_strengthIndicator = False\<rparr>"

section \<open>Properties of validateValue\<close>

lemma trim_Nil: "trim [] = []"
  by (simp add: trim_def)

lemma trim_nonempty: "trim v \<noteq> [] \<Longrightarrow> v \<noteq> []"
  using trim_Nil by auto

lemma record_call_fst:
  "fst (record_call t r st) = fst st @ (case r of None \<Rightarrow> [] | Some e \<Rightarrow> if e \<noteq> [] then [e] else [])"
  by (simp add: record_call_def split: option.splits)

lemma record_call_snd: "snd (record_call t r st) = snd st @ [t]"
  by (simp add: record_call_def split: option.splits)

lemma run_custom_fst: "fst (run_custom i fs v st) = fst st @ concat (map (custom_failure v) fs)"
  by (induction fs arbitrary: i st) (simp_all add: record_call_fst custom_failure_def)

lemma run_custom_snd: "snd (run_custom i fs v st) = snd st @ map Custom [i..<i + length fs]"
proof (induction fs arbitrary: i st)
  case Nil
  then show ?case by simp
next
  case (Cons f fs)
  have "[i..<i + length (f # fs)] = i # [Suc i..<Suc i + length fs]"
    using upt_conv_Cons [of i "i + Suc (length fs)"] by simp
  then show ?case using Cons by (simp add: record_call_snd)
qed

lemma messages_nonempty:
  "email_message \<noteq> []" "minLength_message m \<noteq> []" "maxLength_message m \<noteq> []"
  "default_pattern_message \<noteq> []" "required_message \<noteq> []"
  by (simp_all add: email_message_def minLength_message_def maxLength_message_def
      default_pattern_message_def required_message_def js_def)

lemma validateValue_run_nonempty:
  assumes "trim v \<noteq> []"
  shows "validateValue_run v (Config config) =
    (\<lparr>isValid = (failures_in_order config v = []), errors = failures_in_order config v\<rparr>,
     rules_in_order config)"
proof -
  have v: "v \<noteq> []" using assms trim_nonempty by blast
  have req: "validators_required v = None"
    using assms by (simp add: validators_required_def)
  obtain es cs where run: "validateValue_run v (Config config) = finish (es, cs)"
    and es: "es = failures_in_order config v" and cs: "cs = rules_in_order config"
    using assms v req
    by (simp add: validateValue_run_def Let_def failures_in_order_def rules_in_order_def
        finish_def record_call_fst record_call_snd run_custom_fst run_custom_snd
        validators_email_def validators_minLength_def
        validators_maxLength_def validators_pattern_def messages_nonempty
        split: option.split)
  show ?thesis by (simp add: run es cs finish_def)
qed

text \<open>
  Claim C1. For a structured rule set with \<open>required\<close> true and a value whose trimmed
  form is empty, \<open>validateValue\<close> answers invalid with exactly one error, the
  required-field message, and the only validator it calls is \<open>required\<close>: no email,
  minLength, maxLength, pattern or custom rule is evaluated.
\<close>

theorem required_empty_only_required_error:
  assumes "required config = Some True" and "trim v = []"
  shows "validateValue v (Config config) = \<lparr>isValid = False, errors = [required_message]\<rparr>
       \<and> rules_called v (Config config) = [Required]"
  using assms
  by (simp add: validateValue_def rules_called_def validateValue_run_def validators_required_def
      record_call_def messages_nonempty)

text \<open>
  Witness of C1: a space, a tab and a no-break space under a rule set every other rule of
  which would fail.
\<close>

theorem required_empty_only_required_error_witness:
  "validateValue [0x20, 0x09, 0xA0] (Config strict_config)
     = \<lparr>isValid = False, errors = [required_message]\<rparr>
   \<and> rules_called [0x20, 0x09, 0xA0] (Config strict_config) = [Required]"
  using required_empty_only_required_error [of strict_config "[0x20, 0x09, 0xA0]"]
  by (simp add: strict_config_def trim_def isWhiteSpace_def)

text \<open>
  Claim C2. For a structured rule set in which \<open>required\<close> is unset or false and a value
  whose trimmed form is empty, \<open>validateValue\<close> answers valid with no error, whatever the
  other rules are; it calls no validator.
\<close>

theorem optional_empty_is_valid:
  assumes "required config \<noteq> Some True" and "trim v = []"
  shows "validateValue v (Config config) = \<lparr>isValid = True, errors = []\<rparr>
       \<and> rules_called v (Config config) = []"
  using assms
  by (simp add: validateValue_def rules_called_def validateValue_run_def)

text \<open>
  Witness of C2: two spaces under the same rules with \<open>required\<close> false.
\<close>

theorem optional_empty_is_valid_witness:
  "validateValue (js ''  '') (Config optional_config) = \<lparr>isValid = True, errors = []\<rparr>
   \<and> rules_called (js ''  '') (Config optional_config) = []"
  using optional_empty_is_valid [of optional_config "js ''  ''"]
  by (simp add: optional_config_def strict_config_def trim_def isWhiteSpace_def js_def)

text \<open>
  Claim C3, amended. For a structured rule set and a value whose trimmed form is not
  empty, \<open>validateValue\<close> evaluates email, minLength, maxLength, pattern and then each
  custom function in array order (after \<open>required\<close>, when it is set); the message of every
  failing rule is appended in that order with no short-circuit, the message of a failing
  pattern being the fixed \<open>Invalid format\<close>; and \<open>isValid\<close> holds exactly when the
  errors list is empty.
\<close>

theorem nonempty_failures_accumulate_in_order:
  assumes "trim v \<noteq> []"
  shows "errors (validateValue v (Config config)) = failures_in_order config v
       \<and> isValid (validateValue v (Config config)) = (errors (validateValue v (Config config)) = [])
       \<and> rules_called v (Config config) = rules_in_order config"
  using validateValue_run_nonempty [OF assms, of config]
  by (simp add: validateValue_def rules_called_def)

lemma trim_abc: "trim (js ''abc'') \<noteq> []"
  by (simp add: trim_def isWhiteSpace_def js_def)

lemma not_email_abc: "\<not> isValidEmail (js ''abc'')"
  by (simp add: isValidEmail_def js_def match_lit_def not_space_at_def isWhiteSpace_def)

text \<open>
  Witness of C3: \<open>abc\<close> fails the five rules, and the five messages come in order.
\<close>

theorem nonempty_failures_accumulate_in_order_witness:
  "errors (validateValue (js ''abc'') (Config strict_config))
     = [email_message, minLength_message 5, maxLength_message 2, default_pattern_message, js ''no'']
   \<and> isValid (validateValue (js ''abc'') (Config strict_config))
     = (errors (validateValue (js ''abc'') (Config strict_config)) = [])
   \<and> rules_called (js ''abc'') (Config strict_config)
     = [Required, Email, MinLength, MaxLength, Pattern, Custom 0]"
proof -
  have f: "failures_in_order strict_config (js ''abc'')
      = [email_message, minLength_message 5, maxLength_message 2, default_pattern_message, js ''no'']"
    using not_email_abc
    by (simp add: failures_in_order_def strict_config_def custom_failure_def always_fails_def
        digits_only_def isDigit_def) (simp add: js_def isDigit_def)
  have r: "rules_in_order strict_config = [Required, Email, MinLength, MaxLength, Pattern, Custom 0]"
    by (simp add: rules_in_order_def strict_config_def)
  show ?thesis
    using nonempty_failures_accumulate_in_order [OF trim_abc, of strict_config] f r by simp
qed

text \<open>
  Counterexample to C3 as stated: the pattern validator built with the custom message
  \<open>Digits only\<close> answers that message on \<open>abc\<close>, but a rule set has no place for a
  message, \<open>validateValue\<close> builds the validator from the regular expression alone, and
  the error appended is \<open>Invalid format\<close>.
\<close>

theorem pattern_message_is_fixed_counterexample:
  "validators_pattern digits_only (Some (js ''Digits only'')) (js ''abc'') = Some (js ''Digits only'')
   \<and> errors (validateValue (js ''abc'') (Config pattern_config)) = [js ''Invalid format'']
   \<and> js ''Invalid format'' \<noteq> js ''Digits only''"
proof -
  have d: "\<not> digits_only (js ''abc'')"
    by (simp add: digits_only_def js_def isDigit_def)
  have n: "js ''abc'' \<noteq> []"
    by (simp add: js_def)
  have "validateValue_run (js ''abc'') (Config pattern_config)
      = (\<lparr>isValid = False, errors = [js ''Invalid format'']\<rparr>, [Pattern])"
    using d n trim_abc
    by (simp add: validateValue_run_def pattern_config_def Let_def validators_pattern_def
        record_call_def finish_def default_pattern_message_def) (simp add: js_def)
  then show ?thesis
    using d n by (simp add: validateValue_def validators_pattern_def) (simp add: js_def)
qed

section \<open>Properties of validatePasswordStrength\<close>

lemma criterion_fold_fst:
  "fst (foldl (\<lambda>st c. criterion (fst c) (snd c) st) st cs) = fst st + length (filter fst cs)"
  by (induction cs arbitrary: st) (simp_all add: criterion_def)

lemma criterion_fold_snd:
  "snd (foldl (\<lambda>st c. criterion (fst c) (snd c) st) st cs)
     = snd st @ map snd (filter (\<lambda>c. \<not> fst c) cs)"
  by (induction cs arbitrary: st) (simp_all add: criterion_def)

lemma validatePasswordStrength_fold:
  "validatePasswordStrength p =
     (let st = foldl (\<lambda>st c. criterion (fst c) (snd c) st) (0, []) (criteria p)
      in \<lparr>score = fst st, feedback = snd st, strength = label_of (fst st)\<rparr>)"
  by (simp add: validatePasswordStrength_def criteria_def Let_def)

lemma length_criteria: "length (criteria p) = 5"
  by (simp add: criteria_def)

lemma filter_split_length:
  "length (filter P xs) + length (filter (\<lambda>x. \<not> P x) xs) = length xs"
  by (induction xs) simp_all

lemma label_of_cases:
  "(label_of n = Weak) = (n \<le> 2)" "(label_of n = Fair) = (n = 3)"
  "(label_of n = Good) = (n = 4)" "(label_of n = Strong) = (5 \<le> n)"
  by (auto simp: label_of_def)

text \<open>
  Claim C4. \<open>validatePasswordStrength\<close> awards one point for each criterion met (length
  at least 8, an uppercase letter \<open>A-Z\<close>, a lowercase letter \<open>a-z\<close>, a digit, a code unit
  outside \<open>A-Za-z0-9\<close>); the label is weak for a score of 0 to 2, fair for 3, good for 4,
  strong for 5; and the feedback names exactly the criteria not met, in that order.
\<close>

theorem password_strength_scoring:
  "score (validatePasswordStrength p) = length (filter fst (criteria p))
   \<and> feedback (validatePasswordStrength p) = map snd (filter (\<lambda>c. \<not> fst c) (criteria p))
   \<and> (strength (validatePasswordStrength p) = Weak) = (score (validatePasswordStrength p) \<le> 2)
   \<and> (strength (validatePasswordStrength p) = Fair) = (score (validatePasswordStrength p) = 3)
   \<and> (strength (validatePasswordStrength p) = Good) = (score (validatePasswordStrength p) = 4)
   \<and> (strength (validatePasswordStrength p) = Strong) = (score (validatePasswordStrength p) = 5)
   \<and> score (validatePasswordStrength p) + length (feedback (validatePasswordStrength p)) = 5"
proof -
  let ?r = "validatePasswordStrength p"
  have sc: "score ?r = length (filter fst (criteria p))"
    by (simp add: validatePasswordStrength_fold Let_def criterion_fold_fst)
  have fb: "feedback ?r = map snd (filter (\<lambda>c. \<not> fst c) (criteria p))"
    by (simp add: validatePasswordStrength_fold Let_def criterion_fold_snd)
  have st: "strength ?r = label_of (score ?r)"
    by (simp add: validatePasswordStrength_fold Let_def)
  have total: "score ?r + length (feedback ?r) = 5"
    using filter_split_length [of fst "criteria p"] by (simp add: sc fb length_criteria)
  then have le: "score ?r \<le> 5" by arith
  have strong: "(strength ?r = Strong) = (score ?r = 5)"
    using le by (auto simp: st label_of_cases)
  show ?thesis
    using sc fb total strong by (simp add: st label_of_cases)
qed

lemma criteria_abc123:
  "criteria (js ''abc123'')
      = [(False, js ''Use at least 8 characters''), (False, js ''Add uppercase letters''),
         (True, js ''Add lowercase letters''), (True, js ''Add numbers''),
         (False, js ''Add special characters'')]"
proof -
  have v: "js ''abc123'' = [0x61, 0x62, 0x63, 0x31, 0x32, 0x33]"
    by (simp add: js_def)
  show ?thesis
    unfolding criteria_def v
    by (simp add: isUpper_def isLower_def isDigit_def isSpecial_def)
qed

text \<open>
  Witness of C4: \<open>abc123\<close> meets the lowercase and the digit criteria only.
\<close>

theorem password_strength_scoring_witness:
  "score (validatePasswordStrength (js ''abc123'')) = 2
   \<and> feedback (validatePasswordStrength (js ''abc123''))
     = [js ''Use at least 8 characters'', js ''Add uppercase letters'', js ''Add special characters'']
   \<and> strength (validatePasswordStrength (js ''abc123'')) = Weak"
proof -
  have "score (validatePasswordStrength (js ''abc123'')) = 2
      \<and> feedback (validatePasswordStrength (js ''abc123''))
         = [js ''Use at least 8 characters'', js ''Add uppercase letters'', js ''Add special characters'']
      \<and> (strength (validatePasswordStrength (js ''abc123'')) = Weak)
         = (score (validatePasswordStrength (js ''abc123'')) \<le> 2)"
    using password_strength_scoring [of "js ''abc123''"]
    unfolding criteria_abc123 by simp
  then show ?thesis by simp
qed

section \<open>Theme broadcast\<close>

lemma kebab_names:
  "kebab ''backgroundColor'' = ''background-color''"
  "kebab ''color'' = ''color''"
  "kebab ''border'' = ''border''"
  "kebab ''borderRadius'' = ''border-radius''"
  "kebab ''transition'' = ''transition''"
  "kebab ''outline'' = ''outline''"
  by code_simp+

lemma applyNeumorphicStyles_background:
  "el_style (applyNeumorphicStyles e
       [(''backgroundColor'', Text s), (''color'', a), (''borderRadius'', b),
        (''transition'', c), (''outline'', d)] th) ''background-color'' = Some (Text s)"
  by (simp add: applyNeumorphicStyles_def Let_def kebab_names setProperty_def)

lemma applyBaseStyles_only_element:
  "state_of (applyBaseStyles c) = c\<lparr>element := element (state_of (applyBaseStyles c))\<rparr>"
  by (simp add: applyBaseStyles_def Let_def DOMTokenList_add_def
      split: option.splits outcome.splits)

lemma applyBaseStyles_fields:
  "config_theme (state_of (applyBaseStyles c)) = config_theme c"
  "theme (state_of (applyBaseStyles c)) = theme c"
  "destroyed (state_of (applyBaseStyles c)) = destroyed c"
  "listeners (state_of (applyBaseStyles c)) = listeners c"
  "config_className (state_of (applyBaseStyles c)) = config_className c"
  "config_disabled (state_of (applyBaseStyles c)) = config_disabled c"
  "component.more (state_of (applyBaseStyles c)) = component.more c"
  by (subst applyBaseStyles_only_element, simp)+

lemma applyBaseStyles_error:
  "applyBaseStyles c
     = (case (case config_className c of
                None \<Rightarrow> None
              | Some n \<Rightarrow> if n = [] then None else token_error n) of
          None \<Rightarrow> Returns (state_of (applyBaseStyles c))
        | Some ex \<Rightarrow> Throws (DOMException ex) (state_of (applyBaseStyles c)))"
  by (simp add: applyBaseStyles_def Let_def DOMTokenList_add_def split: option.splits)

lemma applyBaseStyles_returns:
  assumes "className_ok c"
  shows "applyBaseStyles c = Returns (state_of (applyBaseStyles c))"
  using assms
  by (auto simp add: applyBaseStyles_def Let_def DOMTokenList_add_def className_ok_def
      split: option.splits)

lemma applyBaseStyles_background:
  assumes "className_ok c"
  shows "el_style (element (state_of (applyBaseStyles c))) ''background-color''
           = Some (Text (colors_surface (theme c)))"
  using assms
  by (auto simp add: applyBaseStyles_def Let_def DOMTokenList_add_def className_ok_def
      applyNeumorphicStyles_background split: option.splits)

lemma applyBaseStyles_invalid_className:
  assumes "config_className c = Some n" and "n \<noteq> []" and "token_error n = Some ex"
  shows "applyBaseStyles c
           = Throws (DOMException ex) (c\<lparr>element := addClassName (element c) (js ''component'')\<rparr>)"
  using assms by (simp add: applyBaseStyles_def Let_def DOMTokenList_add_def)

lemma className_ok_cong:
  "config_className c' = config_className c \<Longrightarrow> className_ok c' = className_ok c"
  by (simp add: className_ok_def)

lemma listener_currentTheme: "currentTheme (theme_change_listener j w) = currentTheme w"
  by (simp add: theme_change_listener_def update_instance_def split: option.splits theme_arg.splits)

lemma listener_config:
  "config_theme (instances (theme_change_listener j w) i) = config_theme (instances w i)"
  "config_className (instances (theme_change_listener j w) i) = config_className (instances w i)"
  by (simp_all add: theme_change_listener_def update_instance_def onThemeChange_def
      applyBaseStyles_fields split: option.splits theme_arg.splits)

lemma listener_sets_background:
  assumes "config_theme (instances w i) = Some (Preset p)" and "className_ok (instances w i)"
  shows "el_style (element (instances (theme_change_listener i w) i)) ''background-color''
           = Some (Text (colors_surface (currentTheme w)))"
proof -
  let ?c = "(instances w i)\<lparr>theme := getCurrentTheme w\<rparr>"
  have "className_ok ?c" using assms(2) by (simp add: className_ok_def)
  from applyBaseStyles_background [OF this] show ?thesis
    using assms(1)
    by (simp add: theme_change_listener_def update_instance_def onThemeChange_def
        getCurrentTheme_def)
qed

lemma listener_other_instance:
  "j \<noteq> i \<Longrightarrow> instances (theme_change_listener j w) i = instances w i"
  by (simp add: theme_change_listener_def update_instance_def split: option.splits theme_arg.splits)

lemma listener_not_preset:
  "\<forall>p. config_theme (instances w i) \<noteq> Some (Preset p)
     \<Longrightarrow> instances (theme_change_listener j w) i = instances w i"
  by (cases "j = i")
     (auto simp add: theme_change_listener_def update_instance_def
        split: option.splits theme_arg.splits)

lemma listener_keeps_background:
  assumes "el_style (element (instances w i)) ''background-color''
             = Some (Text (colors_surface (currentTheme w)))"
    and "className_ok (instances w i)"
  shows "el_style (element (instances (theme_change_listener j w) i)) ''background-color''
           = Some (Text (colors_surface (currentTheme w)))"
proof (cases "j = i \<and> (\<exists>p. config_theme (instances w i) = Some (Preset p))")
  case True
  then show ?thesis using listener_sets_background [of w i] assms(2) by auto
next
  case False
  then have "instances (theme_change_listener j w) i = instances w i"
    using listener_other_instance [of j i w] listener_not_preset [of w i j] by auto
  then show ?thesis using assms(1) by simp
qed

lemma dispatch_fold_background:
  assumes "config_theme (instances w i) = Some (Preset p)"
    and "className_ok (instances w i)"
    and "el_style (element (instances w i)) ''background-color''
             = Some (Text (colors_surface (currentTheme w)))
         \<or> (''np:theme-change'', i) \<in> set ls"
  shows "el_style (element (instances
           (foldl (\<lambda>w' l. if fst l = ''np:theme-change'' then theme_change_listener (snd l) w' else w')
              w ls) i)) ''background-color''
         = Some (Text (colors_surface (currentTheme w)))"
  using assms
proof (induction ls arbitrary: w)
  case Nil
  then show ?case by simp
next
  case (Cons l ls)
  let ?w = "if fst l = ''np:theme-change'' then theme_change_listener (snd l) w else w"
  have ct: "currentTheme ?w = currentTheme w"
    by (simp add: listener_currentTheme)
  have cf: "config_theme (instances ?w i) = Some (Preset p)"
    using Cons.prems(1) by (simp add: listener_config)
  have ok: "className_ok (instances ?w i)"
    using Cons.prems(2) className_ok_cong [of "instances ?w i" "instances w i"]
    by (simp add: listener_config)
  have "el_style (element (instances ?w i)) ''background-color''
             = Some (Text (colors_surface (currentTheme ?w)))
         \<or> (''np:theme-change'', i) \<in> set ls"
  proof (cases "el_style (element (instances w i)) ''background-color''
             = Some (Text (colors_surface (currentTheme w)))")
    case True
    then show ?thesis
      using listener_keeps_background [of w i "snd l"] Cons.prems(2) ct by auto
  next
    case False
    then have m: "(''np:theme-change'', i) \<in> set (l # ls)" using Cons.prems(3) by blast
    show ?thesis
    proof (cases "l = (''np:theme-change'', i)")
      case True
      then show ?thesis
        using listener_sets_background [OF Cons.prems(1) Cons.prems(2)] ct by simp
    next
      case False
      then show ?thesis using m by simp
    qed
  qed
  from Cons.IH [OF cf ok this] show ?case using ct by simp
qed

lemma dispatch_fold_not_preset:
  assumes "\<forall>p. config_theme (instances w i) \<noteq> Some (Preset p)"
  shows "instances
           (foldl (\<lambda>w' l. if fst l = ''np:theme-change'' then theme_change_listener (snd l) w' else w')
              w ls) i = instances w i"
  using assms
proof (induction ls arbitrary: w)
  case Nil
  then show ?case by simp
next
  case (Cons l ls)
  let ?w = "if fst l = ''np:theme-change'' then theme_change_listener (snd l) w else w"
  have same: "instances ?w i = instances w i"
    using listener_not_preset [OF Cons.prems] by simp
  then have "\<forall>p. config_theme (instances ?w i) \<noteq> Some (Preset p)"
    using Cons.prems by simp
  from Cons.IH [OF this] show ?case using same by simp
qed

lemma setTheme_not_preset:
  assumes "\<forall>p. config_theme (instances w i) \<noteq> Some (Preset p)"
  shows "instances (setTheme t w) i = instances w i"
proof -
  let ?w2 = "applyCSSProperties (currentTheme (w\<lparr>currentTheme := (case t of Preset p \<Rightarrow> themes p | Object th \<Rightarrow> th)\<rparr>))
               (w\<lparr>currentTheme := (case t of Preset p \<Rightarrow> themes p | Object th \<Rightarrow> th)\<rparr>)"
  have i: "instances ?w2 = instances w" by (simp add: applyCSSProperties_def)
  then have "\<forall>p. config_theme (instances ?w2 i) \<noteq> Some (Preset p)" using assms by simp
  from dispatch_fold_not_preset [OF this, of "window_listeners ?w2"] show ?thesis
    using i by (simp add: setTheme_def Let_def dispatch_theme_change_def)
qed

text \<open>
  An instance whose configured class name is no valid class token is never repainted:
  its listener raises in \<open>classList.add\<close> before any style is set.
\<close>

lemma listener_invalid_className:
  assumes "config_className (instances w i) = Some n" and "n \<noteq> []"
    and "token_error n = Some ex"
  shows "el_style (element (instances (theme_change_listener j w) i))
           = el_style (element (instances w i))"
proof (cases "j = i \<and> (\<exists>p. config_theme (instances w i) = Some (Preset p))")
  case True
  let ?c = "(instances w i)\<lparr>theme := getCurrentTheme w\<rparr>"
  have "applyBaseStyles ?c
          = Throws (DOMException ex) (?c\<lparr>element := addClassName (element ?c) (js ''component'')\<rparr>)"
    by (rule applyBaseStyles_invalid_className [of ?c n ex]) (simp_all add: assms)
  then show ?thesis
    using True
    by (auto simp add: theme_change_listener_def update_instance_def onThemeChange_def
        addClassName_def classList_add_def)
next
  case False
  then have "instances (theme_change_listener j w) i = instances w i"
    using listener_other_instance [of j i w] listener_not_preset [of w i j] by auto
  then show ?thesis by simp
qed

lemma dispatch_fold_invalid_className:
  assumes "config_className (instances w i) = Some n" and "n \<noteq> []"
    and "token_error n = Some ex"
  shows "el_style (element (instances
           (foldl (\<lambda>w' l. if fst l = ''np:theme-change'' then theme_change_listener (snd l) w' else w')
              w ls) i))
         = el_style (element (instances w i))"
  using assms(1)
proof (induction ls arbitrary: w)
  case Nil
  then show ?case by simp
next
  case (Cons l ls)
  let ?w = "if fst l = ''np:theme-change'' then theme_change_listener (snd l) w else w"
  have cn: "config_className (instances ?w i) = Some n"
    using Cons.prems by (simp add: listener_config)
  have "el_style (element (instances ?w i)) = el_style (element (instances w i))"
    using listener_invalid_className [OF Cons.prems assms(2,3)] by simp
  with Cons.IH [OF cn] show ?case by simp
qed

lemma setTheme_invalid_className:
  assumes "config_className (instances w i) = Some n" and "n \<noteq> []"
    and "token_error n = Some ex"
  shows "el_style (element (instances (setTheme t w) i)) = el_style (element (instances w i))"
proof -
  let ?w2 = "applyCSSProperties (currentTheme (w\<lparr>currentTheme := (case t of Preset p \<Rightarrow> themes p | Object th \<Rightarrow> th)\<rparr>))
               (w\<lparr>currentTheme := (case t of Preset p \<Rightarrow> themes p | Object th \<Rightarrow> th)\<rparr>)"
  have i: "instances ?w2 = instances w" by (simp add: applyCSSProperties_def)
  then have "config_className (instances ?w2 i) = Some n" using assms(1) by simp
  from dispatch_fold_invalid_className [OF this assms(2,3), of "window_listeners ?w2"]
  show ?thesis
    using i by (simp add: setTheme_def Let_def dispatch_theme_change_def)
qed

text \<open>
  Claim C5, amended. After \<open>setTheme('dark')\<close>, every instance that listens on
  \<open>window\<close> (the constructor registers the listener, \<open>destroy\<close> removes it), whose
  configuration names a theme preset and whose configured class name is unset, empty or a
  valid class token, has the background colour of its element set to the surface colour of
  the dark theme, with no call on the instance; an instance whose configuration gives a
  theme object is left as it was.
\<close>

theorem setTheme_dark_repaints_preset_instances:
  assumes "(''np:theme-change'', i) \<in> set (window_listeners w)"
    and "className_ok (instances w i)"
  shows "(config_theme (instances w i) = Some (Preset p)
            \<longrightarrow> el_style (element (instances (setTheme (Preset Dark) w) i)) ''background-color''
                  = Some (Text (colors_surface darkTheme)))
       \<and> (config_theme (instances w i) = Some (Object th)
            \<longrightarrow> instances (setTheme (Preset Dark) w) i = instances w i)"
proof (intro conjI impI)
  assume p: "config_theme (instances w i) = Some (Preset p)"
  let ?w2 = "applyCSSProperties darkTheme (w\<lparr>currentTheme := darkTheme\<rparr>)"
  have a: "config_theme (instances ?w2 i) = Some (Preset p)"
    using p by (simp add: applyCSSProperties_def)
  have b: "(''np:theme-change'', i) \<in> set (window_listeners ?w2)"
    using assms(1) by (simp add: applyCSSProperties_def)
  have c: "currentTheme ?w2 = darkTheme"
    by (simp add: applyCSSProperties_def)
  have d: "className_ok (instances ?w2 i)"
    using assms(2) by (simp add: applyCSSProperties_def)
  have "setTheme (Preset Dark) w = dispatch_theme_change ?w2"
    by (simp add: setTheme_def Let_def)
  then show "el_style (element (instances (setTheme (Preset Dark) w) i)) ''background-color''
                  = Some (Text (colors_surface darkTheme))"
    using dispatch_fold_background [OF a d, of "window_listeners ?w2"] b c
    by (simp add: dispatch_theme_change_def)
next
  assume "config_theme (instances w i) = Some (Object th)"
  then have "\<forall>p. config_theme (instances w i) \<noteq> Some (Preset p)" by simp
  from setTheme_not_preset [OF this]
  show "instances (setTheme (Preset Dark) w) i = instances w i" .
qed

lemma custom_class_ok: "token_error (js ''custom-class'') = None"
  by (simp add: token_error_def js_def isAsciiWhitespace_def)

lemma construct_base:
  assumes c: "c = \<lparr>element = e, config_theme = t, config_className = cn, config_disabled = d,
                   theme = (case t of Some (Preset p) \<Rightarrow> getCurrentTheme w
                            | Some (Object th) \<Rightarrow> th
                            | None \<Rightarrow> getCurrentTheme w),
                   listeners = [], destroyed = False, \<dots> = ext\<rparr>"
    and ok: "className_ok c"
  shows "construct base_init base_bindEvents (Some e) t cn d ext w
         = Inr (next_instance w,
                bindEvents (next_instance w)
                  (w\<lparr>instances := (instances w)(next_instance w := state_of (applyBaseStyles c)),
                     next_instance := Suc (next_instance w)\<rparr>))"
proof -
  define w1 where "w1 = w\<lparr>instances := (instances w)(next_instance w := c),
                            next_instance := Suc (next_instance w)\<rparr>"
  obtain c' where r: "applyBaseStyles c = Returns c'"
    using applyBaseStyles_returns [OF ok] by blast
  have "instances w1 (next_instance w) = c" by (simp add: w1_def)
  then have b: "base_init (next_instance w) w1
                  = Returns (w1\<lparr>instances := (instances w1)(next_instance w := c')\<rparr>)"
    using r by (simp add: base_init_def on_instance_def)
  have "construct base_init base_bindEvents (Some e) t cn d ext w
          = (case and_then (base_init (next_instance w) w1) (base_bindEvents (next_instance w)) of
               Throws ex w3 \<Rightarrow> Inl ex
             | Returns w3 \<Rightarrow> Inr (next_instance w, w3))"
    unfolding construct_def Let_def w1_def c by simp
  then have k: "construct base_init base_bindEvents (Some e) t cn d ext w
          = Inr (next_instance w,
                 bindEvents (next_instance w) (w1\<lparr>instances := (instances w1)(next_instance w := c')\<rparr>))"
    unfolding b by (simp add: base_bindEvents_def)
  have e: "w1\<lparr>instances := (instances w1)(next_instance w := c')\<rparr>
             = w\<lparr>instances := (instances w)(next_instance w := state_of (applyBaseStyles c)),
                 next_instance := Suc (next_instance w)\<rparr>"
    using r by (simp add: w1_def)
  show ?thesis unfolding k e by (rule refl)
qed

lemma page0_fields:
  "next_instance (page0 c) = 0"
  "getCurrentTheme (page0 c) = lightTheme"
  "window_listeners (page0 c) = []"
  "head_styles (page0 c) = []"
  by (simp_all add: page0_def getCurrentTheme_def)

lemma page_with_construct:
  "construct base_init base_bindEvents (Some (blank_element OtherElement)) t
     (Some (js ''custom-class'')) None () (page0 blank_component)
   = Inr (0, page_with t)"
proof -
  define c where "c = \<lparr>element = blank_element OtherElement, config_theme = t,
             config_className = Some (js ''custom-class''), config_disabled = None,
             theme = (case t of Some (Preset p) \<Rightarrow> getCurrentTheme (page0 blank_component)
                      | Some (Object th) \<Rightarrow> th
                      | None \<Rightarrow> getCurrentTheme (page0 blank_component)),
             listeners = [], destroyed = False\<rparr>"
  have ok: "className_ok c" by (simp add: c_def className_ok_def custom_class_ok)
  from construct_base [OF c_def ok] show ?thesis
    by (simp add: page_with_def page0_fields)
qed

lemma page_with_eq:
  "page_with t =
     bindEvents 0
       ((page0 blank_component)
          \<lparr>instances := (instances (page0 blank_component))
             (0 := state_of (applyBaseStyles
                \<lparr>element = blank_element OtherElement, config_theme = t,
                 config_className = Some (js ''custom-class''), config_disabled = None,
                 theme = (case t of Some (Object th) \<Rightarrow> th | _ \<Rightarrow> lightTheme),
                 listeners = [], destroyed = False\<rparr>)),
            next_instance := Suc 0\<rparr>)"
proof -
  define c where "c = \<lparr>element = blank_element OtherElement, config_theme = t,
             config_className = Some (js ''custom-class''), config_disabled = None,
             theme = (case t of Some (Preset p) \<Rightarrow> getCurrentTheme (page0 blank_component)
                      | Some (Object th) \<Rightarrow> th
                      | None \<Rightarrow> getCurrentTheme (page0 blank_component)),
             listeners = [], destroyed = False\<rparr>"
  have ok: "className_ok c" by (simp add: c_def className_ok_def custom_class_ok)
  have th: "(case t of Some (Preset p) \<Rightarrow> getCurrentTheme (page0 blank_component)
                      | Some (Object th) \<Rightarrow> th
                      | None \<Rightarrow> getCurrentTheme (page0 blank_component))
            = (case t of Some (Object th) \<Rightarrow> th | _ \<Rightarrow> lightTheme)"
    by (simp add: page0_fields split: option.splits theme_arg.splits)
  have "page_with t =
     bindEvents 0
       ((page0 blank_component)
          \<lparr>instances := (instances (page0 blank_component)) (0 := state_of (applyBaseStyles c)),
            next_instance := Suc 0\<rparr>)"
    using construct_base [OF c_def ok] by (simp add: page_with_def page0_fields)
  then show ?thesis by (simp add: c_def th)
qed

lemma page_with_instance:
  "instances (page_with t) 0 =
     state_of (applyBaseStyles
       \<lparr>element = blank_element OtherElement, config_theme = t,
        config_className = Some (js ''custom-class''), config_disabled = None,
        theme = (case t of Some (Object th) \<Rightarrow> th | _ \<Rightarrow> lightTheme),
        listeners = [], destroyed = False\<rparr>)
     \<lparr>listeners := [(Window, ''np:theme-change'')]\<rparr>"
  by (simp add: page_with_eq bindEvents_def addEventListener_def update_instance_def Let_def
      truthy_bool_def applyBaseStyles_fields)

lemma page_with_listeners: "window_listeners (page_with t) = [(''np:theme-change'', 0)]"
  by (simp add: page_with_eq bindEvents_def addEventListener_def update_instance_def Let_def
      truthy_bool_def applyBaseStyles_fields page0_fields)

lemma page_with_config:
  "config_theme (instances (page_with t) 0) = t"
  "config_className (instances (page_with t) 0) = Some (js ''custom-class'')"
  "theme (instances (page_with t) 0) = (case t of Some (Object th) \<Rightarrow> th | _ \<Rightarrow> lightTheme)"
  by (simp_all add: page_with_instance applyBaseStyles_fields)

lemma page_with_live: "\<not> destroyed (instances (page_with t) 0)"
  by (simp add: page_with_instance applyBaseStyles_fields)

lemma page_with_className_ok: "className_ok (instances (page_with t) 0)"
  by (simp add: className_ok_def page_with_config custom_class_ok)

lemma page_with_background:
  "el_style (element (instances (page_with t) 0)) ''background-color''
     = Some (Text (colors_surface (case t of Some (Object th) \<Rightarrow> th | _ \<Rightarrow> lightTheme)))"
proof -
  let ?c = "\<lparr>element = blank_element OtherElement, config_theme = t,
        config_className = Some (js ''custom-class''), config_disabled = None,
        theme = (case t of Some (Object th) \<Rightarrow> th | _ \<Rightarrow> lightTheme),
        listeners = [], destroyed = False\<rparr>"
  have ok: "className_ok ?c" by (simp add: className_ok_def custom_class_ok)
  from applyBaseStyles_background [OF ok] show ?thesis
    by (simp add: page_with_instance)
qed

lemma surfaces_differ:
  "colors_surface lightTheme \<noteq> colors_surface darkTheme"
  "colors_surface sand_theme \<noteq> colors_surface darkTheme"
  by (simp_all add: lightTheme_def darkTheme_def sand_theme_def js_def)

text \<open>
  Witness of C5: an instance built by the constructor with \<open>theme: 'light'\<close> is
  repainted, and one built with a theme object of the caller's is left as it was.
\<close>

theorem setTheme_dark_repaints_preset_instances_witness:
  "el_style (element (instances (setTheme (Preset Dark) (page_with (Some (Preset Light)))) 0))
      ''background-color'' = Some (Text (colors_surface darkTheme))
   \<and> instances (setTheme (Preset Dark) (page_with (Some (Object sand_theme)))) 0
       = instances (page_with (Some (Object sand_theme))) 0"
  using setTheme_dark_repaints_preset_instances
          [of 0 "page_with (Some (Preset Light))" Light sand_theme]
        setTheme_dark_repaints_preset_instances
          [of 0 "page_with (Some (Object sand_theme))" Light sand_theme]
  by (simp add: page_with_listeners page_with_config page_with_className_ok)

text \<open>
  Counterexample to C5 as stated: an instance built by the constructor with a theme
  object of the caller's is live and listens, but its listener acts only when
  \<open>typeof this._config.theme\<close> is \<open>'string'\<close>; after \<open>setTheme('dark')\<close> its
  background is still the surface colour of its own theme, which is not the dark one.
\<close>

theorem theme_object_instance_keeps_background_counterexample:
  "construct base_init base_bindEvents (Some (blank_element OtherElement))
     (Some (Object sand_theme)) (Some (js ''custom-class'')) None () (page0 blank_component)
     = Inr (0, page_with (Some (Object sand_theme)))
   \<and> (''np:theme-change'', 0) \<in> set (window_listeners (page_with (Some (Object sand_theme))))
   \<and> \<not> destroyed (instances (page_with (Some (Object sand_theme))) 0)
   \<and> el_style (element (instances (setTheme (Preset Dark) (page_with (Some (Object sand_theme)))) 0))
        ''background-color'' = Some (Text (colors_surface sand_theme))
   \<and> colors_surface sand_theme \<noteq> colors_surface darkTheme"
proof -
  have "instances (setTheme (Preset Dark) (page_with (Some (Object sand_theme)))) 0
          = instances (page_with (Some (Object sand_theme))) 0"
    by (rule setTheme_not_preset) (simp add: page_with_config)
  then show ?thesis
    by (simp add: page_with_construct page_with_listeners page_with_live page_with_background
        surfaces_differ)
qed

text \<open>
  An instance built with no theme in its configuration follows the global theme when it
  is built (the constructor resolves its theme with \<open>getCurrentTheme()\<close>), yet the same
  \<open>typeof\<close> test keeps its listener from acting: after \<open>setTheme('dark')\<close> its
  background is still the light surface.
\<close>

lemma unthemed_instance_keeps_background:
  "(''np:theme-change'', 0) \<in> set (window_listeners (page_with None))
   \<and> \<not> destroyed (instances (page_with None) 0)
   \<and> config_theme (instances (page_with None) 0) = None
   \<and> el_style (element (instances (setTheme (Preset Dark) (page_with None)) 0)) ''background-color''
       = Some (Text (colors_surface lightTheme))
   \<and> colors_surface lightTheme \<noteq> colors_surface darkTheme"
proof -
  have "instances (setTheme (Preset Dark) (page_with None)) 0 = instances (page_with None) 0"
    by (rule setTheme_not_preset) (simp add: page_with_config)
  then show ?thesis
    by (simp add: page_with_listeners page_with_live page_with_config page_with_background
        surfaces_differ)
qed

section \<open>Destruction\<close>

lemma removeEventListener_fields:
  "config_className (instances (removeEventListener t ev i w) j) = config_className (instances w j)"
  "destroyed (instances (removeEventListener t ev i w) j) = destroyed (instances w j)"
  "el_dispatched (element (instances (removeEventListener t ev i w) j))
     = el_dispatched (element (instances w j))"
  "head_styles (removeEventListener t ev i w) = head_styles w"
  by (simp_all add: removeEventListener_def update_instance_def split: target.splits)

lemma removal_fold_fields:
  "config_className (instances (foldl (\<lambda>w' l. removeEventListener (fst l) (snd l) i w') w ls) j)
     = config_className (instances w j)"
  "destroyed (instances (foldl (\<lambda>w' l. removeEventListener (fst l) (snd l) i w') w ls) j)
     = destroyed (instances w j)"
  "el_dispatched (element (instances (foldl (\<lambda>w' l. removeEventListener (fst l) (snd l) i w') w ls) j))
     = el_dispatched (element (instances w j))"
  "head_styles (foldl (\<lambda>w' l. removeEventListener (fst l) (snd l) i w') w ls) = head_styles w"
  by (induction ls arbitrary: w) (simp_all add: removeEventListener_fields)

lemma teardown_returns:
  assumes "className_ok (instances w i)"
  shows "teardown i w = Returns (state_of (teardown i w))"
proof -
  let ?w1 = "foldl (\<lambda>w' l. removeEventListener (fst l) (snd l) i w') w (listeners (instances w i))"
  have "config_className (instances ?w1 i) = config_className (instances w i)"
    by (rule removal_fold_fields)
  then show ?thesis
    using assms
    by (auto simp add: teardown_def Let_def update_instance_def on_instance_def
        DOMTokenList_remove_def className_ok_def split: option.splits)
qed

lemma teardown_raises:
  assumes "config_className (instances w i) = Some n" and "n \<noteq> []"
    and "token_error n = Some ex"
  shows "teardown i w = Throws (DOMException ex) (state_of (teardown i w))"
    and "destroyed (instances (state_of (teardown i w)) i) = destroyed (instances w i)"
    and "config_className (instances (state_of (teardown i w)) i) = Some n"
proof -
  let ?w1 = "foldl (\<lambda>w' l. removeEventListener (fst l) (snd l) i w') w (listeners (instances w i))"
  have a: "config_className (instances ?w1 i) = Some n"
    using assms(1) by (simp add: removal_fold_fields)
  have b: "destroyed (instances ?w1 i) = destroyed (instances w i)"
    by (rule removal_fold_fields)
  show "teardown i w = Throws (DOMException ex) (state_of (teardown i w))"
    using a assms(2,3)
    by (simp add: teardown_def Let_def update_instance_def on_instance_def
        DOMTokenList_remove_def)
  show "destroyed (instances (state_of (teardown i w)) i) = destroyed (instances w i)"
    using a b assms(2,3)
    by (simp add: teardown_def Let_def update_instance_def on_instance_def
        DOMTokenList_remove_def)
  show "config_className (instances (state_of (teardown i w)) i) = Some n"
    using a assms(2,3)
    by (simp add: teardown_def Let_def update_instance_def on_instance_def
        DOMTokenList_remove_def)
qed

lemma teardown_effects:
  assumes "className_ok (instances w i)"
  shows "el_dispatched (element (instances (state_of (teardown i w)) i))
           = el_dispatched (element (instances w i)) @ [''np:destroy'']"
    and "listeners (instances (state_of (teardown i w)) i) = []"
    and "head_styles (state_of (teardown i w)) = head_styles w"
proof -
  let ?w1 = "foldl (\<lambda>w' l. removeEventListener (fst l) (snd l) i w') w (listeners (instances w i))"
  have a: "config_className (instances ?w1 i) = config_className (instances w i)"
    by (rule removal_fold_fields)
  have b: "el_dispatched (element (instances ?w1 i)) = el_dispatched (element (instances w i))"
    by (rule removal_fold_fields)
  have c: "head_styles ?w1 = head_styles w"
    by (rule removal_fold_fields)
  show "el_dispatched (element (instances (state_of (teardown i w)) i))
           = el_dispatched (element (instances w i)) @ [''np:destroy'']"
    using a b assms
    by (auto simp add: teardown_def Let_def update_instance_def on_instance_def emit_def
        dispatchEvent_def classList_remove_def DOMTokenList_remove_def className_ok_def
        split: option.splits)
  show "listeners (instances (state_of (teardown i w)) i) = []"
    using a assms
    by (auto simp add: teardown_def Let_def update_instance_def on_instance_def emit_def
        DOMTokenList_remove_def className_ok_def split: option.splits)
  show "head_styles (state_of (teardown i w)) = head_styles w"
    using a c assms
    by (auto simp add: teardown_def Let_def update_instance_def on_instance_def emit_def
        DOMTokenList_remove_def className_ok_def split: option.splits)
qed

lemma mark_destroyed_destroyed: "destroyed (instances (mark_destroyed i w) i)"
  by (simp add: mark_destroyed_def update_instance_def)

lemma destroy_destroyed: "destroyed (instances w i) \<Longrightarrow> destroy onDestroy i w = Returns w"
  by (simp add: destroy_def)

lemma destroy_raises:
  assumes "\<not> destroyed (instances w i)"
    and "config_className (instances w i) = Some n" and "n \<noteq> []"
    and "token_error n = Some ex"
  shows "destroy onDestroy i w = Throws (DOMException ex) (state_of (teardown i w))"
  using assms(1) teardown_raises(1) [OF assms(2,3,4)]
  by (simp add: destroy_def) (metis and_then.simps(2))

text \<open>
  Claim C8, amended. On an instance whose configured class name is unset, empty or a valid
  class token, and with a cleanup hook that returns, \<open>destroy\<close> returns; a second call
  returns too and leaves the page exactly as the first call left it (no listener or class
  removed again, no second \<open>np:destroy\<close>, no second run of the hook); and the first call,
  on an instance not destroyed before, is the teardown, then one run of the hook on the
  page the teardown left, then the flag.
\<close>

theorem destroy_twice_is_noop:
  assumes "className_ok (instances w i)"
    and "onDestroy i (state_of (teardown i w)) = Returns w'"
  shows "destroy onDestroy i w = Returns (state_of (destroy onDestroy i w))
       \<and> destroy onDestroy i (state_of (destroy onDestroy i w))
           = Returns (state_of (destroy onDestroy i w))
       \<and> state_of (destroy onDestroy i w)
           = (if destroyed (instances w i) then w else mark_destroyed i w')
       \<and> el_dispatched (element (instances (state_of (teardown i w)) i))
           = el_dispatched (element (instances w i)) @ [''np:destroy'']"
proof (cases "destroyed (instances w i)")
  case True
  then show ?thesis
    using teardown_effects(1) [OF assms(1)] by (simp add: destroy_def)
next
  case False
  have t: "teardown i w = Returns (state_of (teardown i w))"
    by (rule teardown_returns [OF assms(1)])
  have "destroy onDestroy i w
          = and_then (Returns (state_of (teardown i w)))
              (\<lambda>w5. and_then (onDestroy i w5) (\<lambda>w6. Returns (mark_destroyed i w6)))"
    using False t by (simp add: destroy_def)
  then have d: "destroy onDestroy i w = Returns (mark_destroyed i w')"
    using assms(2) by simp
  have "destroy onDestroy i (mark_destroyed i w') = Returns (mark_destroyed i w')"
    by (rule destroy_destroyed [OF mark_destroyed_destroyed])
  then show ?thesis
    using d False teardown_effects(1) [OF assms(1)] by simp
qed

lemma page_with_dispatched: "el_dispatched (element (instances (page_with t) 0)) = []"
proof -
  let ?c = "\<lparr>element = blank_element OtherElement, config_theme = t,
        config_className = Some (js ''custom-class''), config_disabled = None,
        theme = (case t of Some (Object th) \<Rightarrow> th | _ \<Rightarrow> lightTheme),
        listeners = [], destroyed = False\<rparr>"
  have "className_ok ?c" by (simp add: className_ok_def custom_class_ok)
  then have "el_dispatched (element (state_of (applyBaseStyles ?c))) = []"
    by (auto simp add: applyBaseStyles_def Let_def DOMTokenList_add_def className_ok_def
        applyNeumorphicStyles_def setProperty_def addClassName_def classList_add_def
        blank_element_def split: option.splits)
  then show ?thesis by (simp add: page_with_instance)
qed

lemma page_with_head_styles: "head_styles (page_with t) = []"
  by (simp add: page_with_eq bindEvents_def addEventListener_def update_instance_def Let_def
      truthy_bool_def applyBaseStyles_fields page0_fields)

text \<open>
  Witness of C8: an instance built by the constructor, with a cleanup hook that leaves a
  mark each time it runs. After two calls of \<open>destroy\<close> there is one mark and one
  \<open>np:destroy\<close> event.
\<close>

theorem destroy_twice_is_noop_witness:
  "destroy marking_onDestroy 0 (page_with None)
     = Returns (state_of (destroy marking_onDestroy 0 (page_with None)))
   \<and> destroy marking_onDestroy 0 (state_of (destroy marking_onDestroy 0 (page_with None)))
       = Returns (state_of (destroy marking_onDestroy 0 (page_with None)))
   \<and> head_styles
       (state_of (destroy marking_onDestroy 0
          (state_of (destroy marking_onDestroy 0 (page_with None))))) = [''cleanup-ran'']
   \<and> el_dispatched (element (instances (state_of (teardown 0 (page_with None))) 0))
       = [''np:destroy'']"
proof -
  let ?w = "page_with None"
  let ?w' = "(state_of (teardown 0 ?w))
               \<lparr>head_styles := head_styles (state_of (teardown 0 ?w)) @ [''cleanup-ran'']\<rparr>"
  have h: "marking_onDestroy 0 (state_of (teardown 0 ?w)) = Returns ?w'"
    by (simp add: marking_onDestroy_def)
  have hs: "head_styles (mark_destroyed 0 ?w') = [''cleanup-ran'']"
    using teardown_effects(3) [OF page_with_className_ok, of None]
    by (simp add: mark_destroyed_def update_instance_def page_with_head_styles)
  let ?d = "state_of (destroy marking_onDestroy 0 ?w)"
  note t = destroy_twice_is_noop
            [where onDestroy = marking_onDestroy and i = 0 and w = "page_with None",
             OF page_with_className_ok h]
  from t have a: "destroy marking_onDestroy 0 ?w = Returns ?d" by (rule conjunct1)
  from t have b: "destroy marking_onDestroy 0 ?d = Returns ?d" by blast
  from t have "?d = (if destroyed (instances ?w 0) then ?w else mark_destroyed 0 ?w')" by blast
  then have c: "?d = mark_destroyed 0 ?w'" using page_with_live [of None] by simp
  from t have "el_dispatched (element (instances (state_of (teardown 0 ?w)) 0))
                 = el_dispatched (element (instances ?w 0)) @ [''np:destroy'']" by blast
  then have e: "el_dispatched (element (instances (state_of (teardown 0 ?w)) 0)) = [''np:destroy'']"
    by (simp add: page_with_dispatched)
  have "head_styles (state_of (destroy marking_onDestroy 0 ?d)) = head_styles ?d"
    by (simp add: b)
  also have "\<dots> = [''cleanup-ran'']" using hs by (simp only: c)
  finally show ?thesis using a b e by blast
qed

lemma two_classes_invalid: "token_error (js ''a b'') = Some InvalidCharacterError"
  by (simp add: token_error_def js_def isAsciiWhitespace_def)

lemma failed_update:
  "update base_onUpdate two_classes 0 (page_with None)
     = Throws (DOMException InvalidCharacterError) page_after_failed_update"
  "config_className (instances page_after_failed_update 0) = Some (js ''a b'')"
  "\<not> destroyed (instances page_after_failed_update 0)"
proof -
  have n: "js ''a b'' \<noteq> []" "js ''custom-class'' \<noteq> []" "js ''a b'' \<noteq> js ''custom-class''"
    by (simp_all add: js_def)
  have u: "update base_onUpdate two_classes 0 (page_with None)
     = Throws (DOMException InvalidCharacterError)
         (state_of (update base_onUpdate two_classes 0 (page_with None)))
     \<and> config_className (instances (state_of (update base_onUpdate two_classes 0 (page_with None))) 0)
         = Some (js ''a b'')
     \<and> \<not> destroyed (instances (state_of (update base_onUpdate two_classes 0 (page_with None))) 0)"
    using n page_with_live [of None]
    by (simp add: update_def Let_def two_classes_def page_with_config update_instance_def
        on_instance_def DOMTokenList_remove_def DOMTokenList_add_def custom_class_ok
        two_classes_invalid)
  show "update base_onUpdate two_classes 0 (page_with None)
     = Throws (DOMException InvalidCharacterError) page_after_failed_update"
    using u by (simp add: page_after_failed_update_def)
  show "config_className (instances page_after_failed_update 0) = Some (js ''a b'')"
    using u by (simp add: page_after_failed_update_def)
  show "\<not> destroyed (instances page_after_failed_update 0)"
    using u by (simp add: page_after_failed_update_def)
qed

text \<open>
  Counterexample to C8 as stated: an instance built by the constructor, then
  \<open>update({className: 'a b'})\<close>, which raises in \<open>classList.add\<close> after the
  configuration has taken the new class name. \<open>destroy\<close> then raises in
  \<open>classList.remove\<close> before it sets \<open>_destroyed\<close>, and a second \<open>destroy\<close> raises
  again.
\<close>

theorem destroy_raises_twice_counterexample:
  "construct base_init base_bindEvents (Some (blank_element OtherElement)) None
     (Some (js ''custom-class'')) None () (page0 blank_component) = Inr (0, page_with None)
   \<and> update base_onUpdate two_classes 0 (page_with None)
       = Throws (DOMException InvalidCharacterError) page_after_failed_update
   \<and> destroy base_onDestroy 0 page_after_failed_update
       = Throws (DOMException InvalidCharacterError) page_after_failed_destroy
   \<and> \<not> destroyed (instances page_after_failed_destroy 0)
   \<and> destroy base_onDestroy 0 page_after_failed_destroy
       = Throws (DOMException InvalidCharacterError)
           (state_of (destroy base_onDestroy 0 page_after_failed_destroy))"
proof -
  have n: "js ''a b'' \<noteq> []" by (simp add: js_def)
  note r1 = teardown_raises [OF failed_update(2) n two_classes_invalid]
  have d1: "destroy base_onDestroy 0 page_after_failed_update
              = Throws (DOMException InvalidCharacterError) page_after_failed_destroy"
    using destroy_raises [OF failed_update(3) failed_update(2) n two_classes_invalid]
    by (simp add: page_after_failed_destroy_def)
  have s: "page_after_failed_destroy = state_of (teardown 0 page_after_failed_update)"
    using d1 destroy_raises [OF failed_update(3) failed_update(2) n two_classes_invalid,
        of base_onDestroy]
    by simp
  have live: "\<not> destroyed (instances page_after_failed_destroy 0)"
    using r1(2) failed_update(3) by (simp add: s)
  have cn: "config_className (instances page_after_failed_destroy 0) = Some (js ''a b'')"
    using r1(3) by (simp add: s)
  have d2: "destroy base_onDestroy 0 page_after_failed_destroy
       = Throws (DOMException InvalidCharacterError)
           (state_of (destroy base_onDestroy 0 page_after_failed_destroy))"
    using destroy_raises [OF live cn n two_classes_invalid, of base_onDestroy] by simp
  show ?thesis
    using page_with_construct [of None] failed_update(1) d1 live d2 by simp
qed

section \<open>Validation of a field without rules\<close>

lemma validate_skips:
  assumes "inputConfig_validate (instances w i) = None
           \<or> \<not> truthy_bool (inputConfig_showValidation (instances w i))"
  shows "validate i w = (\<lparr>isValid = True, errors = []\<rparr>, w)"
  using assms
  by (auto simp: validate_def performValidation_def split: option.splits)

lemma textarea_validate_skips:
  assumes "textareaConfig_validate (instances w i) = None
           \<or> \<not> truthy_bool (textareaConfig_showValidation (instances w i))"
  shows "textarea_validate i w = (\<lparr>isValid = True, errors = []\<rparr>, w)"
  using assms
  by (auto simp: textarea_validate_def textarea_performValidation_def split: option.splits)

text \<open>
  Claim C9. For an input, and for a textarea, whose configuration has no \<open>validate\<close> rule
  set or whose \<open>showValidation\<close> is false (or unset), \<open>validate()\<close> answers
  \<open>{isValid: true, errors: []}\<close> and leaves the page as it was: no result stored, no
  change to the element, none to the maps of the validation manager.
\<close>

theorem validate_without_rules_is_noop:
  "((inputConfig_validate (instances w i) = None
      \<or> \<not> truthy_bool (inputConfig_showValidation (instances w i)))
     \<longrightarrow> validate i w = (\<lparr>isValid = True, errors = []\<rparr>, w))
   \<and> ((textareaConfig_validate (instances w' j) = None
        \<or> \<not> truthy_bool (textareaConfig_showValidation (instances w' j)))
       \<longrightarrow> textarea_validate j w' = (\<lparr>isValid = True, errors = []\<rparr>, w'))"
  using validate_skips [of w i] textarea_validate_skips [of w' j] by blast

text \<open>
  Witness of C9: an input without rules, and an input and a textarea with rules and
  \<open>showValidation: false\<close>.
\<close>

theorem validate_without_rules_is_noop_witness:
  "validate 0 (page0 (input_with [] None (Some True)))
     = (\<lparr>isValid = True, errors = []\<rparr>, page0 (input_with [] None (Some True)))
   \<and> validate 0 (page0 (input_with [] (Some (Config strict_config)) (Some False)))
     = (\<lparr>isValid = True, errors = []\<rparr>,
        page0 (input_with [] (Some (Config strict_config)) (Some False)))
   \<and> textarea_validate 0 (page0 (textarea_with [] (Some (Config strict_config)) (Some False)))
     = (\<lparr>isValid = True, errors = []\<rparr>,
        page0 (textarea_with [] (Some (Config strict_config)) (Some False)))"
  using validate_without_rules_is_noop
          [of "page0 (input_with [] None (Some True))" 0
              "page0 (textarea_with [] (Some (Config strict_config)) (Some False))" 0]
        validate_without_rules_is_noop
          [of "page0 (input_with [] (Some (Config strict_config)) (Some False))" 0
              "page0 (textarea_with [] (Some (Config strict_config)) (Some False))" 0]
  by (simp add: page0_def input_with_def textarea_with_def truthy_bool_def)

section \<open>Password strength of the field\<close>

text \<open>
  Claim C10. For a password instance (its element is an \<open>HTMLInputElement\<close>, which the
  constructor requires), \<open>getPasswordStrength()\<close> answers \<open>null\<close> exactly when the value
  of the field is the empty string, and otherwise what \<open>validatePasswordStrength\<close> answers
  on that value.
\<close>

theorem getPasswordStrength_null_iff_empty:
  assumes "el_tag (element c) = InputElement"
  shows "getPasswordStrength c
           = (if el_value (element c) = [] then None
              else Some (validatePasswordStrength (el_value (element c))))
         \<and> (getPasswordStrength c = None) = (el_value (element c) = [])"
  using assms
  by (simp add: getPasswordStrength_def getValue_def getElementValue_def Let_def)

text \<open>
  Witness of C10: an empty field and the field \<open>abc123\<close>.
\<close>

theorem getPasswordStrength_null_iff_empty_witness:
  "getPasswordStrength (password_with []) = None
   \<and> getPasswordStrength (password_with (js ''abc123''))
       = Some (validatePasswordStrength (js ''abc123''))"
proof -
  have n: "js ''abc123'' \<noteq> []" by (simp add: js_def)
  show ?thesis
    using getPasswordStrength_null_iff_empty [of "password_with []"]
          getPasswordStrength_null_iff_empty [of "password_with (js ''abc123'')"] n
    by (simp add: password_with_def blank_element_def)
qed

section \<open>Construction and loading state of the button\<close>

lemma applyBaseStyles_buttonConfig:
  "buttonConfig (state_of (applyBaseStyles c)) = buttonConfig c"
  by (subst applyBaseStyles_only_element) simp

lemma button_init_unassigned:
  assumes "buttonConfig (instances w i) = None"
  shows "button_init i w
     = Throws (case (case config_className (instances w i) of
                       None \<Rightarrow> None
                     | Some n \<Rightarrow> if n = [] then None else token_error n) of
                 None \<Rightarrow> TypeError
               | Some ex \<Rightarrow> DOMException ex)
              (state_of (button_init i w))"
proof -
  have b: "buttonConfig (state_of (applyBaseStyles (instances w i))) = None"
    using assms by (simp add: applyBaseStyles_buttonConfig)
  show ?thesis
    unfolding button_init_def on_instance_def
    by (subst (1 2) applyBaseStyles_error)
       (simp add: Let_def update_instance_def b split: option.splits)
qed

lemma setLoading_unassigned:
  "buttonConfig (instances w i) = None \<Longrightarrow> setLoading loading i w = Throws TypeError w"
  by (simp add: setLoading_def)

text \<open>
  Claim C7: no button is ever handed out. The constructor of the button raises on every
  element, configuration and page: on what is no \<open>button\<close> element by its own check, and
  on a \<open>button\<close> element inside \<open>super()\<close>, where \<open>init\<close> runs before
  \<open>_buttonConfig\<close> is assigned and \<open>applyButtonStyles\<close> reads its \<open>variant\<close> (or,
  before that, \<open>classList.add\<close> refuses the configured class name). So it does on the
  element \<open><button>Save</button>\<close> with the configuration \<open>{}\<close>.
\<close>

theorem new_ButtonComponent_raises:
  "new_ButtonComponent el config w
     = Inl (case el of
              None \<Rightarrow> WrongElementKind
            | Some e \<Rightarrow>
                if el_tag e \<noteq> ButtonElement then WrongElementKind
                else (case (case cfg_className config of
                              None \<Rightarrow> None
                            | Some n \<Rightarrow> if n = [] then None else token_error n) of
                        None \<Rightarrow> TypeError
                      | Some ex \<Rightarrow> DOMException ex))
   \<and> new_ButtonComponent (Some save_button) empty_ButtonConfig w = Inl TypeError"
proof -
  have g: "new_ButtonComponent el config w
     = Inl (case el of
              None \<Rightarrow> WrongElementKind
            | Some e \<Rightarrow>
                if el_tag e \<noteq> ButtonElement then WrongElementKind
                else (case (case cfg_className config of
                              None \<Rightarrow> None
                            | Some n \<Rightarrow> if n = [] then None else token_error n) of
                        None \<Rightarrow> TypeError
                      | Some ex \<Rightarrow> DOMException ex))" for el config and w :: "unit button_ext world"
  proof (cases el)
    case None
    then show ?thesis by (simp add: new_ButtonComponent_def)
  next
    case (Some e)
    define c where "c = \<lparr>element = e, config_theme = cfg_theme config,
        config_className = cfg_className config, config_disabled = cfg_disabled config,
        theme = (case cfg_theme config of Some (Preset p) \<Rightarrow> getCurrentTheme w
                 | Some (Object th) \<Rightarrow> th | None \<Rightarrow> getCurrentTheme w),
        listeners = [], destroyed = False,
        buttonConfig = None, loadingSpinner = False, originalContent = None\<rparr>"
    define w1 where "w1 = w\<lparr>instances := (instances w)(next_instance w := c),
                              next_instance := Suc (next_instance w)\<rparr>"
    have u: "buttonConfig (instances w1 (next_instance w)) = None"
      and cn: "config_className (instances w1 (next_instance w)) = cfg_className config"
      by (simp_all add: w1_def c_def)
    have k: "construct button_init button_bindEvents (Some e) (cfg_theme config)
               (cfg_className config) (cfg_disabled config)
               \<lparr>buttonConfig = None, loadingSpinner = False, originalContent = None\<rparr> w
             = (case and_then (button_init (next_instance w) w1)
                       (button_bindEvents (next_instance w)) of
                  Throws ex w3 \<Rightarrow> Inl ex
                | Returns w3 \<Rightarrow> Inr (next_instance w, w3))"
      unfolding construct_def Let_def w1_def c_def by simp
    have "new_ButtonComponent (Some e) config w
            = (if el_tag e \<noteq> ButtonElement then Inl WrongElementKind
               else (case and_then (button_init (next_instance w) w1)
                            (button_bindEvents (next_instance w)) of
                       Throws ex w3 \<Rightarrow> Inl ex
                     | Returns w3 \<Rightarrow>
                         Inr (next_instance w,
                              update_instance (next_instance w)
                                (\<lambda>c. c\<lparr>buttonConfig := Some (merge_button_config config)\<rparr>) w3)))"
      by (simp add: new_ButtonComponent_def k split: outcome.splits)
    then show ?thesis
      by (subst (asm) button_init_unassigned [OF u]) (simp add: Some cn)
  qed
  have "new_ButtonComponent (Some save_button) empty_ButtonConfig w = Inl TypeError"
    unfolding g by (simp add: save_button_def empty_ButtonConfig_def blank_element_def)
  with g show ?thesis by simp
qed

subsection \<open>The loading state, on a state whose \<open>_buttonConfig\<close> is assigned\<close>

lemma markup_nonempty: "spinner_markup @ loadingText_markup \<noteq> []"
  by (simp add: loadingText_markup_def js_def)

lemma setLoading_True_instance:
  assumes "buttonConfig (instances w i) = Some bc"
  shows "setLoading True i w = Returns (state_of (setLoading True i w))"
    and "el_innerHTML (element (instances (state_of (setLoading True i w)) i))
           = spinner_markup @ loadingText_markup"
    and "originalContent (instances (state_of (setLoading True i w)) i)
           = Some (el_innerHTML (element (instances w i)))"
    and "config_disabled (instances (state_of (setLoading True i w)) i)
           = config_disabled (instances w i)"
    and "is_disabled (element (instances (state_of (setLoading True i w)) i))"
    and "buttonConfig (instances (state_of (setLoading True i w)) i)
           = Some (bc\<lparr>bc_loading := True\<rparr>)"
  using assms
  by (simp_all add: setLoading_def Let_def update_instance_def ensureSpinnerKeyframes_def
      set_innerHTML_def emit_def dispatchEvent_def addClassName_def classList_add_def
      setProperty_def setAttribute_def is_disabled_def)

lemma setLoading_False_instance:
  assumes "buttonConfig (instances w i) = Some bc"
  shows "setLoading False i w = Returns (state_of (setLoading False i w))"
    and "el_innerHTML (element (instances (state_of (setLoading False i w)) i))
     = (case originalContent (instances w i) of
          Some h \<Rightarrow> if h \<noteq> [] then h else el_innerHTML (element (instances w i))
        | None \<Rightarrow> el_innerHTML (element (instances w i)))"
    and "is_disabled (element (instances (state_of (setLoading False i w)) i))
     = truthy_bool (config_disabled (instances w i))"
  using assms
  by (simp_all add: setLoading_def Let_def update_instance_def
      set_innerHTML_def emit_def dispatchEvent_def classList_remove_def
      setProperty_def setAttribute_def removeAttribute_def is_disabled_def
      split: option.splits)

text \<open>
  \<open>setLoading(true)\<close> then \<open>setLoading(false)\<close> on any state whose \<open>_buttonConfig\<close>
  is assigned: both calls return, the control is disabled in between and afterwards as the
  configuration says, and the content is restored when it was not empty. Empty content is
  not: \<open>if (this._originalContent)\<close> is false of the empty string, and the spinner and
  the loading text stay.
\<close>

lemma setLoading_roundtrip:
  assumes "buttonConfig (instances w i) = Some bc"
  shows "and_then (setLoading True i w) (setLoading False i)
           = Returns (state_of (and_then (setLoading True i w) (setLoading False i)))"
    and "el_innerHTML (element (instances
           (state_of (and_then (setLoading True i w) (setLoading False i))) i))
     = (if el_innerHTML (element (instances w i)) = [] then spinner_markup @ loadingText_markup
        else el_innerHTML (element (instances w i)))"
    and "is_disabled (element (instances (state_of (setLoading True i w)) i))"
    and "is_disabled (element (instances
           (state_of (and_then (setLoading True i w) (setLoading False i))) i))
       = truthy_bool (config_disabled (instances w i))"
proof -
  let ?w1 = "state_of (setLoading True i w)"
  note t = setLoading_True_instance [OF assms]
  note f = setLoading_False_instance [OF t(6)]
  have a: "and_then (setLoading True i w) (setLoading False i) = setLoading False i ?w1"
    by (subst t(1)) simp
  show "and_then (setLoading True i w) (setLoading False i)
           = Returns (state_of (and_then (setLoading True i w) (setLoading False i)))"
    unfolding a by (rule f(1))
  show "el_innerHTML (element (instances
           (state_of (and_then (setLoading True i w) (setLoading False i))) i))
     = (if el_innerHTML (element (instances w i)) = [] then spinner_markup @ loadingText_markup
        else el_innerHTML (element (instances w i)))"
    unfolding a by (simp add: f(2) t(2) t(3))
  show "is_disabled (element (instances (state_of (setLoading True i w)) i))"
    by (rule t(5))
  show "is_disabled (element (instances
           (state_of (and_then (setLoading True i w) (setLoading False i))) i))
       = truthy_bool (config_disabled (instances w i))"
    unfolding a by (simp add: f(3) t(4))
qed

section \<open>Construction of the toggle and radio groups\<close>

lemma applyBaseStyles_toggleConfig:
  "toggleConfig (state_of (applyBaseStyles c)) = toggleConfig c"
  by (subst applyBaseStyles_only_element) simp

lemma createToggleStructure_unassigned:
  "toggleConfig c = None \<Longrightarrow> createToggleStructure c = Throws TypeError c"
  by (simp add: createToggleStructure_def)

lemma toggle_init_unassigned:
  assumes "toggleConfig (instances w i) = None"
  shows "toggle_init i w
     = Throws (case (case config_className (instances w i) of
                       None \<Rightarrow> None
                     | Some n \<Rightarrow> if n = [] then None else token_error n) of
                 None \<Rightarrow> TypeError
               | Some ex \<Rightarrow> DOMException ex)
              (state_of (toggle_init i w))"
proof -
  have b: "toggleConfig (state_of (applyBaseStyles (instances w i))) = None"
    using assms by (simp add: applyBaseStyles_toggleConfig)
  show ?thesis
    unfolding toggle_init_def on_instance_def
    by (subst (1 2) applyBaseStyles_error)
       (simp add: createToggleStructure_unassigned [OF b] split: option.splits)
qed

text \<open>
  Claim C6: no toggle is ever handed out. The constructor of the toggle raises on every
  element, configuration and page: on what is no checkbox or radio input by its own check,
  and on such an input inside \<open>super()\<close>, where \<open>init\<close> runs before \<open>_toggleConfig\<close>
  is assigned and \<open>createToggleStructure\<close> reads its \<open>type\<close> (or, before that,
  \<open>classList.add\<close> refuses the configured class name). So it does on a radio input of
  the group \<open>plan\<close> with the configuration \<open>{ type: 'radio' }\<close>.
\<close>

theorem new_ToggleComponent_raises:
  "new_ToggleComponent el config w
     = Inl (case el of
              None \<Rightarrow> WrongElementKind
            | Some inp \<Rightarrow>
                if in_type inp \<noteq> CheckboxType \<and> in_type inp \<noteq> RadioType then WrongElementKind
                else (case (case tcfg_className config of
                              None \<Rightarrow> None
                            | Some n \<Rightarrow> if n = [] then None else token_error n) of
                        None \<Rightarrow> TypeError
                      | Some ex \<Rightarrow> DOMException ex))
   \<and> new_ToggleComponent (Some plan_radio) radio_ToggleConfig w = Inl TypeError"
proof -
  have g: "new_ToggleComponent el config w
     = Inl (case el of
              None \<Rightarrow> WrongElementKind
            | Some inp \<Rightarrow>
                if in_type inp \<noteq> CheckboxType \<and> in_type inp \<noteq> RadioType then WrongElementKind
                else (case (case tcfg_className config of
                              None \<Rightarrow> None
                            | Some n \<Rightarrow> if n = [] then None else token_error n) of
                        None \<Rightarrow> TypeError
                      | Some ex \<Rightarrow> DOMException ex))" for el config and w :: "unit toggle_ext world"
  proof (cases el)
    case None
    then show ?thesis by (simp add: new_ToggleComponent_def)
  next
    case (Some inp)
    define c where "c = \<lparr>element = in_node inp, config_theme = tcfg_theme config,
        config_className = tcfg_className config, config_disabled = tcfg_disabled config,
        theme = (case tcfg_theme config of Some (Preset p) \<Rightarrow> getCurrentTheme w
                 | Some (Object th) \<Rightarrow> th | None \<Rightarrow> getCurrentTheme w),
        listeners = [], destroyed = False,
        toggleConfig = None, isChecked = False, has_wrapper = False, slider = None,
        originalInput = None\<rparr>"
    define w1 where "w1 = w\<lparr>instances := (instances w)(next_instance w := c),
                              next_instance := Suc (next_instance w)\<rparr>"
    have u: "toggleConfig (instances w1 (next_instance w)) = None"
      and cn: "config_className (instances w1 (next_instance w)) = tcfg_className config"
      by (simp_all add: w1_def c_def)
    have k: "construct toggle_init toggle_bindEvents (Some (in_node inp)) (tcfg_theme config)
               (tcfg_className config) (tcfg_disabled config)
               \<lparr>toggleConfig = None, isChecked = False, has_wrapper = False, slider = None,
                originalInput = None\<rparr> w
             = (case and_then (toggle_init (next_instance w) w1)
                       (toggle_bindEvents (next_instance w)) of
                  Throws ex w3 \<Rightarrow> Inl ex
                | Returns w3 \<Rightarrow> Inr (next_instance w, w3))"
      unfolding construct_def Let_def w1_def c_def by simp
    have "new_ToggleComponent (Some inp) config w
            = (if in_type inp \<noteq> CheckboxType \<and> in_type inp \<noteq> RadioType
               then Inl WrongElementKind
               else (case and_then (toggle_init (next_instance w) w1)
                            (toggle_bindEvents (next_instance w)) of
                       Throws ex w3 \<Rightarrow> Inl ex
                     | Returns w3 \<Rightarrow>
                         Inr (next_instance w,
                              update_instance (next_instance w)
                                (\<lambda>c. c\<lparr>toggleConfig := Some (merge_toggle_config config),
                                        originalInput := Some inp,
                                        isChecked := (in_checked inp
                                                      \<or> tc_checked (merge_toggle_config config))\<rparr>)
                                w3)))"
      by (simp add: new_ToggleComponent_def k split: outcome.splits)
    then show ?thesis
      by (subst (asm) toggle_init_unassigned [OF u]) (simp add: Some cn)
  qed
  have "new_ToggleComponent (Some plan_radio) radio_ToggleConfig w = Inl TypeError"
    unfolding g by (simp add: plan_radio_def radio_ToggleConfig_def)
  with g show ?thesis by simp
qed

subsection \<open>What \<open>toggle\<close> does to the other instances\<close>

lemma on_instance_other:
  "j \<noteq> i \<Longrightarrow> instances (state_of (on_instance i f w)) j = instances w j"
  by (simp add: on_instance_def split: outcome.splits)

lemma set_checked_other_isChecked:
  "j \<noteq> i \<Longrightarrow> isChecked (instances (set_checked i inp b w) j) = isChecked (instances w j)"
  by (simp add: set_checked_def split: option.splits)

lemma dispatch_change_other:
  "j \<noteq> i \<Longrightarrow> instances (dispatch_change i w) j = instances w j"
  by (simp add: dispatch_change_def change_listener_def on_instance_other)

text \<open>
  \<open>toggle\<close> on one instance, whether it returns or raises, leaves \<open>_isChecked\<close> of every
  other instance as it was: the component has no code for the group of a radio input. So
  do \<open>check\<close>, \<open>setChecked\<close> and a click.
\<close>

lemma toggle_other_isChecked:
  assumes "j \<noteq> i"
  shows "isChecked (instances (state_of (toggle i w)) j) = isChecked (instances w j)"
proof (cases "truthy_bool (config_disabled (instances w i))")
  case True
  then show ?thesis by (simp add: toggle_def)
next
  case False
  let ?w1 = "update_instance i (\<lambda>c. c\<lparr>isChecked := \<not> isChecked c\<rparr>) w"
  have w1: "instances ?w1 j = instances w j"
    using assms by (simp add: update_instance_def)
  show ?thesis
  proof (cases "originalInput (instances ?w1 i)")
    case None
    then show ?thesis using False w1 by (simp add: toggle_def Let_def)
  next
    case (Some inp)
    let ?w2 = "set_checked i inp (isChecked (instances ?w1 i)) ?w1"
    let ?r = "on_instance i (\<lambda>c. and_then (updateVisualState c) emitChange) ?w2"
    have w2: "isChecked (instances ?w2 j) = isChecked (instances w j)"
      using set_checked_other_isChecked [OF assms, of inp _ ?w1] w1 by simp
    have r: "instances (state_of ?r) j = instances ?w2 j"
      by (rule on_instance_other [OF assms])
    have t: "toggle i w = and_then ?r (\<lambda>w4. Returns (dispatch_change i w4))"
      using False Some by (simp add: toggle_def Let_def)
    show ?thesis
    proof (cases ?r)
      case (Returns w4)
      then have "state_of (toggle i w) = dispatch_change i w4" by (simp add: t)
      moreover have "instances w4 j = instances ?w2 j" using r Returns by simp
      ultimately show ?thesis
        using dispatch_change_other [OF assms, of w4] w2 by simp
    next
      case (Throws ex w4)
      then have "state_of (toggle i w) = w4" by (simp add: t)
      moreover have "instances w4 j = instances ?w2 j" using r Throws by simp
      ultimately show ?thesis using w2 by simp
    qed
  qed
qed

lemma check_other_isChecked:
  assumes "j \<noteq> i"
  shows "isChecked (instances (state_of (check i w)) j) = isChecked (instances w j)"
    and "isChecked (instances (state_of (setChecked b i w)) j) = isChecked (instances w j)"
    and "isChecked (instances (state_of (handleClick i w)) j) = isChecked (instances w j)"
  using toggle_other_isChecked [OF assms, of w]
  by (simp_all add: check_def setChecked_def handleClick_def)

end
